theory Spec2Isabelle
  imports Main
begin

section \<open>Python values\<close>

text \<open>
  The converter of \<^verbatim>\<open>tools/data_converter/update_infos_to_v2.py\<close> builds nested
  Python dictionaries. A value is \<^verbatim>\<open>None\<close>, an integer, a numpy scalar (the type
  parameter \<open>'a\<close>: no arithmetic law of floating point is assumed), a string, a
  numpy array stored as it is, a list or a dictionary. A dictionary is an
  association list in insertion order; its keys are distinct, as in Python.
\<close>

datatype 'a pyval =
    PNone
  | PInt int
  | PNum 'a
  | PStr string
  | PNdarray "'a list"
  | PList "'a pyval list"
  | PDict "(string \<times> 'a pyval) list"

type_synonym 'a pydict = "(string \<times> 'a pyval) list"

text \<open>The exceptions the converter can raise, as values.\<close>

datatype pyerror =
    KeyError string
  | TypeError
  | IndexError
  | ValueError
  | AttributeError string
  | UnboundLocalError string
  | NotImplementedError string

definition bind_err :: "pyerror + 'x \<Rightarrow> ('x \<Rightarrow> pyerror + 'y) \<Rightarrow> pyerror + 'y" where
  "bind_err m f = (case m of Inl e \<Rightarrow> Inl e | Inr x \<Rightarrow> f x)"

text \<open>A \<^verbatim>\<open>for\<close> loop whose body may raise: the first exception ends the loop.\<close>

fun for_each :: "('x \<Rightarrow> 's \<Rightarrow> pyerror + 's) \<Rightarrow> 'x list \<Rightarrow> 's \<Rightarrow> pyerror + 's" where
  "for_each body [] s = Inr s"
| "for_each body (x # xs) s =
     (case body x s of Inl e \<Rightarrow> Inl e | Inr s' \<Rightarrow> for_each body xs s')"

subsection \<open>Dictionaries\<close>

definition dict_keys :: "'a pydict \<Rightarrow> string list" where
  "dict_keys d = map fst d"

text \<open>\<^verbatim>\<open>d[k] = v\<close>: an existing key keeps its place, a new key goes last.\<close>

fun setitem :: "'a pydict \<Rightarrow> string \<Rightarrow> 'a pyval \<Rightarrow> 'a pydict" where
  "setitem [] k v = [(k, v)]"
| "setitem ((k', v') # rest) k v =
     (if k' = k then (k, v) # rest else (k', v') # setitem rest k v)"

text \<open>\<^verbatim>\<open>d[p1]...[pn][k] = v\<close>: each \<^verbatim>\<open>d[p]\<close> on the way must be a dictionary.\<close>

fun setitem_in :: "'a pydict \<Rightarrow> string list \<Rightarrow> string \<Rightarrow> 'a pyval \<Rightarrow> pyerror + 'a pydict" where
  "setitem_in d [] k v = Inr (setitem d k v)"
| "setitem_in d (p # ps) k v =
     (case map_of d p of
        None \<Rightarrow> Inl (KeyError p)
      | Some (PDict sub) \<Rightarrow>
          (case setitem_in sub ps k v of
             Inl e \<Rightarrow> Inl e
           | Inr sub' \<Rightarrow> Inr (setitem d p (PDict sub')))
      | Some _ \<Rightarrow> Inl TypeError)"

text \<open>A run of such assignments, in order.\<close>

fun assign_all :: "'a pydict \<Rightarrow> (string list \<times> string \<times> 'a pyval) list \<Rightarrow> pyerror + 'a pydict" where
  "assign_all d [] = Inr d"
| "assign_all d ((ps, k, v) # rest) =
     (case setitem_in d ps k v of Inl e \<Rightarrow> Inl e | Inr d' \<Rightarrow> assign_all d' rest)"

text \<open>Reading \<^verbatim>\<open>v[k1]...[kn]\<close>; \<open>None\<close> where Python raises.\<close>

fun lookup_path :: "'a pyval \<Rightarrow> string list \<Rightarrow> 'a pyval option" where
  "lookup_path v [] = Some v"
| "lookup_path (PDict d) (k # ks) =
     (case map_of d k of None \<Rightarrow> None | Some v \<Rightarrow> lookup_path v ks)"
| "lookup_path _ (k # ks) = None"

subsection \<open>Strings\<close>

text \<open>\<^verbatim>\<open>sub in s\<close> on strings: \<open>sub\<close> occurs in \<open>s\<close> as a contiguous substring.\<close>

fun str_in :: "string \<Rightarrow> string \<Rightarrow> bool" where
  "str_in sub [] = (sub = [])"
| "str_in sub (c # cs) = (take (length sub) (c # cs) = sub \<or> str_in sub cs)"

text \<open>\<^verbatim>\<open>s.split('/')[-1]\<close>: what follows the last slash.\<close>

definition split_last :: "string \<Rightarrow> string" where
  "split_last s = rev (takeWhile (\<lambda>c. c \<noteq> CHR ''/'') (rev s))"

text \<open>\<^verbatim>\<open>os.path.join(a, b)\<close> of \<^verbatim>\<open>posixpath\<close>, for two components.\<close>

definition osp_join :: "string \<Rightarrow> string \<Rightarrow> string" where
  "osp_join a b =
     (if take 1 b = ''/'' then b
      else if a = [] \<or> last a = CHR ''/'' then a @ b
      else a @ ''/'' @ b)"

subsection \<open>Sequences and numpy\<close>

text \<open>\<^verbatim>\<open>xs[i]\<close> for an index of \<^verbatim>\<open>range(n)\<close>.\<close>

definition py_index :: "'x list \<Rightarrow> nat \<Rightarrow> pyerror + 'x" where
  "py_index xs i = (if i < length xs then Inr (xs ! i) else Inl IndexError)"

text \<open>\<^verbatim>\<open>t.index(x)\<close> of a tuple: the first position of \<open>x\<close>.\<close>

definition tuple_index :: "'x list \<Rightarrow> 'x \<Rightarrow> pyerror + nat" where
  "tuple_index xs x =
     (if x \<in> set xs then Inr (length (takeWhile (\<lambda>y. y \<noteq> x) xs)) else Inl ValueError)"

text \<open>
  numpy is not part of the repository. A matrix is the list of its rows; the
  operations whose result depends on floating-point arithmetic are parameters:
  the cast of one scalar to single precision, the matrix product \<^verbatim>\<open>@\<close> (which
  raises on shapes that do not fit), the embedding of the integer literals of
  \<^verbatim>\<open>np.array\<close> and Python's \<^verbatim>\<open>int(x)\<close>.
\<close>

record 'a numpy =
  float32 :: "'a \<Rightarrow> 'a"
  matmul :: "'a list list \<Rightarrow> 'a list list \<Rightarrow> pyerror + 'a list list"
  from_int :: "int \<Rightarrow> 'a"
  to_int :: "'a \<Rightarrow> pyerror + int"

definition astype_float32 :: "'a numpy \<Rightarrow> 'a list list \<Rightarrow> 'a list list" where
  "astype_float32 np m = map (map (float32 np)) m"

definition tolist1 :: "'a list \<Rightarrow> 'a pyval" where
  "tolist1 row = PList (map PNum row)"

definition tolist2 :: "'a list list \<Rightarrow> 'a pyval" where
  "tolist2 m = PList (map tolist1 m)"

section \<open>Schema templates\<close>

definition get_empty_instance :: "'a pydict" where
  "get_empty_instance =
     [(''bbox'', PNone), (''bbox_label'', PNone), (''bbox_3d'', PNone),
      (''bbox_3d_isvalid'', PNone), (''bbox_label_3d'', PNone), (''depth'', PNone),
      (''center_2d'', PNone), (''attr_label'', PNone), (''num_lidar_pts'', PNone),
      (''num_radar_pts'', PNone), (''difficulty'', PNone), (''unaligned_bbox_3d'', PNone)]"

definition get_empty_lidar_points :: "'a pydict" where
  "get_empty_lidar_points =
     [(''num_pts_feats'', PNone), (''lidar_path'', PNone), (''lidar2img'', PNone),
      (''lidar2ego'', PNone)]"

definition get_empty_radar_points :: "'a pydict" where
  "get_empty_radar_points =
     [(''num_pts_feats'', PNone), (''radar_path'', PNone), (''radar2ego'', PNone)]"

definition get_empty_img_info :: "'a pydict" where
  "get_empty_img_info =
     [(''img_path'', PNone), (''height'', PNone), (''width'', PNone),
      (''depth_map'', PNone), (''cam2img'', PNone), (''cam2ego'', PNone)]"

definition get_single_image_sweep :: "'a pydict" where
  "get_single_image_sweep =
     [(''timestamp'', PNone), (''ego2global'', PNone),
      (''images'', PDict [(''CAM0'', PDict get_empty_img_info),
                          (''CAM1'', PDict get_empty_img_info),
                          (''CAM2'', PDict get_empty_img_info),
                          (''CAM3'', PDict get_empty_img_info)])]"

definition get_single_lidar_sweep :: "'a pydict" where
  "get_single_lidar_sweep =
     [(''timestamp'', PNone), (''ego2global'', PNone),
      (''lidar_points'', PDict get_empty_lidar_points)]"

definition get_empty_standard_data_info :: "'a pydict" where
  "get_empty_standard_data_info =
     [(''sample_id'', PNone), (''token'', PNone)] @ get_single_image_sweep @
     [(''lidar_points'', PDict get_empty_lidar_points),
      (''radar_points'', PDict get_empty_radar_points),
      (''image_sweeps'', PList []),
      (''instances'', PList []),
      (''instances_ignore'', PList []),
      (''pts_semantic_mask_path'', PNone),
      (''pts_instance_mask_path'', PNone)]"

section \<open>The pruner\<close>

text \<open>
  \<^verbatim>\<open>clear_instance_unused_keys\<close>: every key whose value is \<^verbatim>\<open>None\<close> is deleted.
\<close>

fun clear_instance_unused_keys :: "'a pydict \<Rightarrow> 'a pydict" where
  "clear_instance_unused_keys [] = []"
| "clear_instance_unused_keys ((k, v) # rest) =
     (if v = PNone then clear_instance_unused_keys rest
      else (k, v) # clear_instance_unused_keys rest)"

text \<open>
  \<^verbatim>\<open>clear_data_info_unused_keys\<close>: the loop over the keys, with the flag
  \<^verbatim>\<open>empty_flag\<close> as loop state. The keys of a dictionary are distinct, so the loop
  over the snapshot of the keys visits each entry once, in order; a deleted entry
  is left out of the result and a nested dictionary is replaced by its pruned form
  (the source prunes it in place).
\<close>

function clear_data_info_loop :: "'a pydict \<Rightarrow> bool \<Rightarrow> 'a pydict \<times> bool" where
  "clear_data_info_loop [] empty_flag = ([], empty_flag)"
| "clear_data_info_loop ((key, v) # rest) empty_flag =
     (if key = ''instances'' then
        (let (rest', flag') = clear_data_info_loop rest False in ((key, v) # rest', flag'))
      else
        (case v of
           PList xs \<Rightarrow>
             (if length xs = 0 then clear_data_info_loop rest empty_flag
              else (let (rest', flag') = clear_data_info_loop rest False
                    in ((key, v) # rest', flag')))
         | PNone \<Rightarrow> clear_data_info_loop rest empty_flag
         | PDict sub \<Rightarrow>
             (let (sub', sub_empty_flag) = clear_data_info_loop sub True in
              if \<not> sub_empty_flag then
                (let (rest', flag') = clear_data_info_loop rest False
                 in ((key, PDict sub') # rest', flag'))
              else clear_data_info_loop rest empty_flag)
         | _ \<Rightarrow>
             (let (rest', flag') = clear_data_info_loop rest False
              in ((key, v) # rest', flag'))))"
  by pat_completeness auto
termination
  by (relation "measure (\<lambda>(d, f). size_list (size_prod (\<lambda>_. 0) size) d)") auto

definition clear_data_info_unused_keys :: "'a pydict \<Rightarrow> 'a pydict \<times> bool" where
  "clear_data_info_unused_keys data_info = clear_data_info_loop data_info True"

section \<open>Source records\<close>

text \<open>
  The records of the source collections, with the fields the adapters read. The
  per-instance arrays of \<^verbatim>\<open>annos\<close> are lists with one element per row; nothing
  makes them as long as \<^verbatim>\<open>name\<close>, so indexing them can raise.
\<close>

record kitti_image =
  image_idx :: int
  image_path :: string
  image_shape :: "int \<times> int"

record kitti_point_cloud =
  num_features :: int
  velodyne_path :: string

record 'a kitti_calib =
  P0 :: "'a list list"
  P1 :: "'a list list"
  P2 :: "'a list list"
  P3 :: "'a list list"
  R0_rect :: "'a list list"
  Tr_velo_to_cam :: "'a list list"
  Tr_imu_to_velo :: "'a list list"

record 'a kitti_annos =
  name :: "string list"
  bbox :: "'a list list"
  location :: "'a list list"
  dimensions :: "'a list list"
  rotation_y :: "'a list"
  truncated :: "'a list"
  occluded :: "int list"
  alpha :: "'a list"
  score :: "'a list"
  index :: "int list"
  group_ids :: "int list"
  difficulty :: "int list"
  num_points_in_gt :: "int list"

record 'a kitti_info =
  plane :: "'a list option"
  image :: kitti_image
  calib :: "'a kitti_calib"
  point_cloud :: kitti_point_cloud
  annos :: "'a kitti_annos"

record depth_point_cloud =
  num_features :: int

record 'a scannet_annos =
  axis_align_matrix :: "'a list list"
  gt_num :: int
  name :: "string list"
  gt_boxes_upright_depth :: "'a list list"

record 'a scannet_info =
  point_cloud :: depth_point_cloud
  pts_path :: string
  pts_semantic_mask_path :: string
  pts_instance_mask_path :: string
  annos :: "'a scannet_annos"

record 'a sunrgbd_calib =
  Rt :: "'a list list"
  K :: "'a list list"

record sunrgbd_image =
  image_path :: string
  image_shape :: "int \<times> int"

record 'a sunrgbd_annos =
  name :: "string list"
  gt_boxes_upright_depth :: "'a list list"

record 'a sunrgbd_info =
  point_cloud :: depth_point_cloud
  pts_path :: string
  calib :: "'a sunrgbd_calib"
  image :: sunrgbd_image
  annos :: "'a sunrgbd_annos"

section \<open>What a run does to the outside\<close>

text \<open>
  The prints, the pause, the read of the input file and the write of the output
  file, in the order they happen. \<open>Print_ignore_classes s\<close> is the line
  \<^verbatim>\<open>ignore classes: {...}\<close> with the set \<open>s\<close>.
\<close>

datatype 'a event =
    Print string
  | Sleep nat
  | Load string
  | Print_ignore_classes "string set"
  | Dump "'a pyval" string

definition overwrite_warning :: "string \<Rightarrow> string" where
  "overwrite_warning pkl_path =
     ''Warning, you may overwriting the original data '' @ pkl_path @ ''.''"

section \<open>The KITTI adapter\<close>

definition KITTI_CLASSES :: "string list" where
  "KITTI_CLASSES =
     [''Pedestrian'', ''Cyclist'', ''Car'', ''Van'', ''Truck'', ''Person_sitting'',
      ''Tram'', ''Misc'']"

text \<open>A run of assignments \<^verbatim>\<open>d[k] = v\<close> on one dictionary.\<close>

definition setitems :: "'a pydict \<Rightarrow> (string \<times> 'a pyval) list \<Rightarrow> 'a pydict" where
  "setitems d kvs = fold (\<lambda>(k, v) d'. setitem d' k v) kvs d"

text \<open>
  The body of the loop over \<^verbatim>\<open>range(num_instances)\<close>: the instance built for
  \<open>instance_id\<close> and the set \<^verbatim>\<open>ignore_class_name\<close> after it.
\<close>

definition kitti_instance ::
  "'a numpy \<Rightarrow> 'a kitti_annos \<Rightarrow> nat \<Rightarrow> string set \<Rightarrow> pyerror + string set \<times> 'a pydict" where
  "kitti_instance np anns instance_id ignore_class_name =
     bind_err (py_index (kitti_annos.bbox anns) instance_id) (\<lambda>box.
     bind_err (py_index (kitti_annos.name anns) instance_id) (\<lambda>nm.
     bind_err (if nm \<in> set KITTI_CLASSES
               then bind_err (tuple_index KITTI_CLASSES nm)
                      (\<lambda>i. Inr (ignore_class_name, int i))
               else Inr (insert nm ignore_class_name, - 1)) (\<lambda>(ignore_class_name', bbox_label).
     bind_err (py_index (kitti_annos.location anns) instance_id) (\<lambda>loc.
     bind_err (py_index (kitti_annos.dimensions anns) instance_id) (\<lambda>dims.
     bind_err (py_index (kitti_annos.rotation_y anns) instance_id) (\<lambda>rots.
     bind_err (py_index (kitti_annos.truncated anns) instance_id) (\<lambda>trunc.
     bind_err (to_int np trunc) (\<lambda>trunc_int.
     bind_err (py_index (kitti_annos.occluded anns) instance_id) (\<lambda>occ.
     bind_err (py_index (kitti_annos.alpha anns) instance_id) (\<lambda>al.
     bind_err (py_index (kitti_annos.score anns) instance_id) (\<lambda>sc.
     bind_err (py_index (kitti_annos.index anns) instance_id) (\<lambda>idx.
     bind_err (py_index (kitti_annos.group_ids anns) instance_id) (\<lambda>gid.
     bind_err (py_index (kitti_annos.difficulty anns) instance_id) (\<lambda>dif.
     bind_err (py_index (kitti_annos.num_points_in_gt anns) instance_id) (\<lambda>npts.
     Inr (ignore_class_name',
          clear_instance_unused_keys (setitems get_empty_instance
            [(''bbox'', tolist1 box),
             (''bbox_label'', PInt bbox_label),
             (''bbox'', tolist1 box),
             (''bbox_3d'', tolist1 (map (float32 np) (loc @ dims @ [rots]))),
             (''bbox_label_3d'', PInt bbox_label),
             (''bbox'', tolist1 box),
             (''truncated'', PInt trunc_int),
             (''occluded'', PInt occ),
             (''alpha'', PNum al),
             (''score'', PNum sc),
             (''index'', PInt idx),
             (''group_id'', PInt gid),
             (''difficulty'', PInt dif),
             (''num_lidar_pts'', PInt npts)])))))))))))))))))"

definition kitti_instance_list ::
  "'a numpy \<Rightarrow> 'a kitti_annos \<Rightarrow> pyerror + string set \<times> 'a pydict list" where
  "kitti_instance_list np anns =
     for_each
       (\<lambda>instance_id (ignore_class_name, instance_list).
          bind_err (kitti_instance np anns instance_id ignore_class_name)
            (\<lambda>(ignore_class_name', empty_instance).
               Inr (ignore_class_name', instance_list @ [empty_instance])))
       [0..<length (kitti_annos.name anns)] ({}, [])"

text \<open>
  The body of the loop over the source records, up to the assignment of
  \<^verbatim>\<open>instances\<close>: the filled template and the set \<^verbatim>\<open>ignore_class_name\<close>, which
  this body starts from the empty set.
\<close>

definition kitti_temp_data_info ::
  "'a numpy \<Rightarrow> 'a kitti_info \<Rightarrow> pyerror + string set \<times> 'a pydict" where
  "kitti_temp_data_info np ori_info_dict =
     (let c = kitti_info.calib ori_info_dict;
          img = kitti_info.image ori_info_dict;
          pc = kitti_info.point_cloud ori_info_dict;
          temp0 = (case kitti_info.plane ori_info_dict of
                     None \<Rightarrow> get_empty_standard_data_info
                   | Some p \<Rightarrow> setitem get_empty_standard_data_info ''plane'' (PNdarray p));
          rect = astype_float32 np (R0_rect c);
          Trv2c = astype_float32 np (Tr_velo_to_cam c)
      in
      bind_err (assign_all temp0
        [([], ''sample_id'', PInt (image_idx img)),
         ([''images'', ''CAM0''], ''cam2img'', tolist2 (P0 c)),
         ([''images'', ''CAM1''], ''cam2img'', tolist2 (P1 c)),
         ([''images'', ''CAM2''], ''cam2img'', tolist2 (P2 c)),
         ([''images'', ''CAM3''], ''cam2img'', tolist2 (P3 c)),
         ([''images'', ''CAM2''], ''img_path'', PStr (split_last (kitti_image.image_path img))),
         ([''images'', ''CAM2''], ''height'', PInt (fst (kitti_image.image_shape img))),
         ([''images'', ''CAM2''], ''width'', PInt (snd (kitti_image.image_shape img))),
         ([''lidar_points''], ''num_pts_feats'', PInt (kitti_point_cloud.num_features pc)),
         ([''lidar_points''], ''lidar_path'', PStr (split_last (velodyne_path pc)))]) (\<lambda>temp1.
      bind_err (matmul np rect Trv2c) (\<lambda>lidar2cam.
      bind_err (setitem_in temp1 [''images'', ''CAM2''] ''lidar2cam'' (tolist2 lidar2cam)) (\<lambda>temp2.
      bind_err (matmul np (P0 c) lidar2cam) (\<lambda>l2i0.
      bind_err (setitem_in temp2 [''images'', ''CAM0''] ''lidar2img'' (tolist2 l2i0)) (\<lambda>temp3.
      bind_err (matmul np (P1 c) lidar2cam) (\<lambda>l2i1.
      bind_err (setitem_in temp3 [''images'', ''CAM1''] ''lidar2img'' (tolist2 l2i1)) (\<lambda>temp4.
      bind_err (matmul np (P2 c) lidar2cam) (\<lambda>l2i2.
      bind_err (setitem_in temp4 [''images'', ''CAM2''] ''lidar2img'' (tolist2 l2i2)) (\<lambda>temp5.
      bind_err (matmul np (P3 c) lidar2cam) (\<lambda>l2i3.
      bind_err (assign_all temp5
        [([''images'', ''CAM3''], ''lidar2img'', tolist2 l2i3),
         ([''lidar_points''], ''Tr_velo_to_cam'', tolist2 Trv2c),
         ([''images''], ''R0_rect'', tolist2 (astype_float32 np (R0_rect c))),
         ([''lidar_points''], ''Tr_imu_to_velo'',
            tolist2 (astype_float32 np (Tr_imu_to_velo c)))]) (\<lambda>temp6.
      bind_err (kitti_instance_list np (kitti_info.annos ori_info_dict))
        (\<lambda>(ignore_class_name, instance_list).
           Inr (ignore_class_name,
                setitem temp6 ''instances'' (PList (map PDict instance_list))))
      ))))))))))))"

text \<open>The whole body: the filled template is pruned, the flag is dropped.\<close>

definition kitti_data_info ::
  "'a numpy \<Rightarrow> 'a kitti_info \<Rightarrow> pyerror + string set \<times> 'a pydict" where
  "kitti_data_info np ori_info_dict =
     bind_err (kitti_temp_data_info np ori_info_dict)
       (\<lambda>(ignore_class_name, temp_data_info).
          Inr (ignore_class_name, fst (clear_data_info_unused_keys temp_data_info)))"

text \<open>
  The state of the loop over the records: the variable \<^verbatim>\<open>ignore_class_name\<close>
  (\<open>None\<close> while no assignment has bound it) and \<^verbatim>\<open>converted_list\<close>.
\<close>

type_synonym 'a run_state = "string set option \<times> 'a pydict list"

definition converted_data_info :: "string \<Rightarrow> 'a pydict list \<Rightarrow> 'a pyval" where
  "converted_data_info dataset converted_list =
     PDict [(''metainfo'', PDict [(''DATASET'', PStr dataset)]),
            (''data_list'', PList (map PDict converted_list))]"

definition kitti_loop :: "'a numpy \<Rightarrow> 'a kitti_info list \<Rightarrow> pyerror + 'a run_state" where
  "kitti_loop np data_list =
     for_each
       (\<lambda>ori_info_dict (ignore_class_name, converted_list).
          bind_err (kitti_data_info np ori_info_dict)
            (\<lambda>(ignore_class_name', temp_data_info).
               Inr (Some ignore_class_name', converted_list @ [temp_data_info])))
       data_list (None, [])"

definition update_kitti_infos ::
  "'a numpy \<Rightarrow> (string \<Rightarrow> 'a kitti_info list) \<Rightarrow> string \<Rightarrow> string
     \<Rightarrow> 'a event list \<times> (pyerror + unit)" where
  "update_kitti_infos np load pkl_path out_dir =
     (let tr1 = [Print (pkl_path @ '' will be modified.'')] @
                (if str_in out_dir pkl_path
                 then [Print (overwrite_warning pkl_path), Sleep 5] else []) @
                [Print (''Reading from input file: '' @ pkl_path @ ''.''), Load pkl_path,
                 Print ''Start updating:'']
      in case kitti_loop np (load pkl_path) of
           Inl e \<Rightarrow> (tr1, Inl e)
         | Inr (ignore_class_name, converted_list) \<Rightarrow>
             (let pkl_name = split_last pkl_path;
                  out_path = osp_join out_dir pkl_name;
                  tr2 = tr1 @ [Print (''Writing to output file: '' @ out_path @ ''.'')]
              in case ignore_class_name of
                   None \<Rightarrow> (tr2, Inl (UnboundLocalError ''ignore_class_name''))
                 | Some ign \<Rightarrow>
                     (tr2 @ [Print_ignore_classes ign,
                             Dump (converted_data_info ''KITTI'' converted_list) out_path],
                      Inr ())))"

section \<open>The ScanNet adapter\<close>

definition SCANNET_CLASSES :: "string list" where
  "SCANNET_CLASSES =
     [''cabinet'', ''bed'', ''chair'', ''sofa'', ''table'', ''door'', ''window'',
      ''bookshelf'', ''picture'', ''counter'', ''desk'', ''curtain'', ''refrigerator'',
      ''showercurtrain'', ''toilet'', ''sink'', ''bathtub'', ''garbagebin'']"

definition scannet_instance ::
  "'a scannet_annos \<Rightarrow> nat \<Rightarrow> string set \<Rightarrow> pyerror + string set \<times> 'a pydict" where
  "scannet_instance anns instance_id ignore_class_name =
     bind_err (py_index (scannet_annos.gt_boxes_upright_depth anns) instance_id) (\<lambda>box.
     bind_err (py_index (scannet_annos.name anns) instance_id) (\<lambda>nm.
     bind_err (if nm \<in> set SCANNET_CLASSES
               then bind_err (tuple_index SCANNET_CLASSES nm)
                      (\<lambda>i. Inr (ignore_class_name, int i))
               else Inr (insert nm ignore_class_name, - 1)) (\<lambda>(ignore_class_name', label).
     Inr (ignore_class_name',
          clear_instance_unused_keys (setitems get_empty_instance
            [(''bbox_3d'', tolist1 box),
             (''bbox_label_3d'', PInt label)])))))"

definition scannet_instance_list ::
  "'a scannet_annos \<Rightarrow> pyerror + string set \<times> 'a pydict list" where
  "scannet_instance_list anns =
     for_each
       (\<lambda>instance_id (ignore_class_name, instance_list).
          bind_err (scannet_instance anns instance_id ignore_class_name)
            (\<lambda>(ignore_class_name', empty_instance).
               Inr (ignore_class_name', instance_list @ [empty_instance])))
       [0..<length (scannet_annos.name anns)] ({}, [])"

text \<open>
  The body of the loop over the source records. Only the branch for
  \<^verbatim>\<open>gt_num != 0\<close> assigns \<^verbatim>\<open>ignore_class_name\<close>; the other branch leaves the
  variable as the records before left it.
\<close>

definition scannet_temp_data_info ::
  "'a scannet_info \<Rightarrow> string set option \<Rightarrow> pyerror + string set option \<times> 'a pydict" where
  "scannet_temp_data_info ori_info_dict ignore_class_name =
     (let anns = scannet_info.annos ori_info_dict in
      bind_err (assign_all get_empty_standard_data_info
        [([''lidar_points''], ''num_pts_feats'',
            PInt (depth_point_cloud.num_features (scannet_info.point_cloud ori_info_dict))),
         ([''lidar_points''], ''lidar_path'',
            PStr (split_last (scannet_info.pts_path ori_info_dict))),
         ([], ''pts_semantic_mask_path'',
            PStr (split_last (pts_semantic_mask_path ori_info_dict))),
         ([], ''pts_instance_mask_path'',
            PStr (split_last (pts_instance_mask_path ori_info_dict))),
         ([], ''axis_align_matrix'', tolist2 (axis_align_matrix anns))]) (\<lambda>temp1.
      bind_err (if gt_num anns = 0 then Inr (ignore_class_name, [])
                else bind_err (scannet_instance_list anns)
                       (\<lambda>(ign, instance_list). Inr (Some ign, instance_list)))
        (\<lambda>(ignore_class_name', instance_list).
           Inr (ignore_class_name',
                setitem temp1 ''instances'' (PList (map PDict instance_list))))))"

definition scannet_data_info ::
  "'a scannet_info \<Rightarrow> string set option \<Rightarrow> pyerror + string set option \<times> 'a pydict" where
  "scannet_data_info ori_info_dict ignore_class_name =
     bind_err (scannet_temp_data_info ori_info_dict ignore_class_name)
       (\<lambda>(ignore_class_name', temp_data_info).
          Inr (ignore_class_name', fst (clear_data_info_unused_keys temp_data_info)))"

definition scannet_loop :: "'a scannet_info list \<Rightarrow> pyerror + 'a run_state" where
  "scannet_loop data_list =
     for_each
       (\<lambda>ori_info_dict (ignore_class_name, converted_list).
          bind_err (scannet_data_info ori_info_dict ignore_class_name)
            (\<lambda>(ignore_class_name', temp_data_info).
               Inr (ignore_class_name', converted_list @ [temp_data_info])))
       data_list (None, [])"

definition update_scannet_infos ::
  "(string \<Rightarrow> 'a scannet_info list) \<Rightarrow> string \<Rightarrow> string
     \<Rightarrow> 'a event list \<times> (pyerror + unit)" where
  "update_scannet_infos load pkl_path out_dir =
     (let tr1 = [Print (pkl_path @ '' will be modified.'')] @
                (if str_in out_dir pkl_path
                 then [Print (overwrite_warning pkl_path), Sleep 5] else []) @
                [Print (''Reading from input file: '' @ pkl_path @ ''.''), Load pkl_path,
                 Print ''Start updating:'']
      in case scannet_loop (load pkl_path) of
           Inl e \<Rightarrow> (tr1, Inl e)
         | Inr (ignore_class_name, converted_list) \<Rightarrow>
             (let pkl_name = split_last pkl_path;
                  out_path = osp_join out_dir pkl_name;
                  tr2 = tr1 @ [Print (''Writing to output file: '' @ out_path @ ''.'')]
              in case ignore_class_name of
                   None \<Rightarrow> (tr2, Inl (UnboundLocalError ''ignore_class_name''))
                 | Some ign \<Rightarrow>
                     (tr2 @ [Print_ignore_classes ign,
                             Dump (converted_data_info ''SCANNET'' converted_list) out_path],
                      Inr ())))"

section \<open>The SUNRGBD adapter\<close>

definition SUNRGBD_CLASSES :: "string list" where
  "SUNRGBD_CLASSES =
     [''bed'', ''table'', ''sofa'', ''chair'', ''toilet'', ''desk'', ''dresser'',
      ''night_stand'', ''bookshelf'', ''bathtub'']"

text \<open>The literal of \<^verbatim>\<open>np.array([[1, 0, 0], [0, 0, -1], [0, 1, 0]])\<close>.\<close>

definition coordinate_flip :: "'a numpy \<Rightarrow> 'a list list" where
  "coordinate_flip np = map (map (from_int np)) [[1, 0, 0], [0, 0, - 1], [0, 1, 0]]"

definition sunrgbd_instance ::
  "'a sunrgbd_annos \<Rightarrow> nat \<Rightarrow> string set \<Rightarrow> pyerror + string set \<times> 'a pydict" where
  "sunrgbd_instance anns instance_id ignore_class_name =
     bind_err (py_index (sunrgbd_annos.gt_boxes_upright_depth anns) instance_id) (\<lambda>box.
     bind_err (py_index (sunrgbd_annos.name anns) instance_id) (\<lambda>nm.
     bind_err (if nm \<in> set SUNRGBD_CLASSES
               then bind_err (tuple_index SUNRGBD_CLASSES nm)
                      (\<lambda>i. Inr (ignore_class_name, int i))
               else Inr (insert nm ignore_class_name, - 1)) (\<lambda>(ignore_class_name', label).
     Inr (ignore_class_name',
          clear_instance_unused_keys (setitems get_empty_instance
            [(''bbox_3d'', tolist1 box),
             (''bbox_label_3d'', PInt label)])))))"

definition sunrgbd_instance_list ::
  "'a sunrgbd_annos \<Rightarrow> pyerror + string set \<times> 'a pydict list" where
  "sunrgbd_instance_list anns =
     for_each
       (\<lambda>instance_id (ignore_class_name, instance_list).
          bind_err (sunrgbd_instance anns instance_id ignore_class_name)
            (\<lambda>(ignore_class_name', empty_instance).
               Inr (ignore_class_name', instance_list @ [empty_instance])))
       [0..<length (sunrgbd_annos.name anns)] ({}, [])"

definition sunrgbd_temp_data_info ::
  "'a numpy \<Rightarrow> 'a sunrgbd_info \<Rightarrow> pyerror + string set \<times> 'a pydict" where
  "sunrgbd_temp_data_info np ori_info_dict =
     (let c = sunrgbd_info.calib ori_info_dict;
          img = sunrgbd_info.image ori_info_dict
      in
      bind_err (assign_all get_empty_standard_data_info
        [([''lidar_points''], ''num_pts_feats'',
            PInt (depth_point_cloud.num_features (sunrgbd_info.point_cloud ori_info_dict))),
         ([''lidar_points''], ''lidar_path'',
            PStr (split_last (sunrgbd_info.pts_path ori_info_dict)))]) (\<lambda>temp1.
      bind_err (matmul np (coordinate_flip np) (transpose (Rt c))) (\<lambda>rt_mat.
      bind_err (matmul np (K c) rt_mat) (\<lambda>depth2img.
      bind_err (assign_all temp1
        [([''images'', ''CAM0''], ''depth2img'', tolist2 depth2img),
         ([''images'', ''CAM0''], ''img_path'',
            PStr (split_last (sunrgbd_image.image_path img))),
         ([''images'', ''CAM0''], ''height'', PInt (fst (sunrgbd_image.image_shape img))),
         ([''images'', ''CAM0''], ''width'', PInt (snd (sunrgbd_image.image_shape img)))])
        (\<lambda>temp2.
      bind_err (sunrgbd_instance_list (sunrgbd_info.annos ori_info_dict))
        (\<lambda>(ignore_class_name, instance_list).
           Inr (ignore_class_name,
                setitem temp2 ''instances'' (PList (map PDict instance_list))))
      )))))"

definition sunrgbd_data_info ::
  "'a numpy \<Rightarrow> 'a sunrgbd_info \<Rightarrow> pyerror + string set \<times> 'a pydict" where
  "sunrgbd_data_info np ori_info_dict =
     bind_err (sunrgbd_temp_data_info np ori_info_dict)
       (\<lambda>(ignore_class_name, temp_data_info).
          Inr (ignore_class_name, fst (clear_data_info_unused_keys temp_data_info)))"

definition sunrgbd_loop :: "'a numpy \<Rightarrow> 'a sunrgbd_info list \<Rightarrow> pyerror + 'a run_state" where
  "sunrgbd_loop np data_list =
     for_each
       (\<lambda>ori_info_dict (ignore_class_name, converted_list).
          bind_err (sunrgbd_data_info np ori_info_dict)
            (\<lambda>(ignore_class_name', temp_data_info).
               Inr (Some ignore_class_name', converted_list @ [temp_data_info])))
       data_list (None, [])"

definition update_sunrgbd_infos ::
  "'a numpy \<Rightarrow> (string \<Rightarrow> 'a sunrgbd_info list) \<Rightarrow> string \<Rightarrow> string
     \<Rightarrow> 'a event list \<times> (pyerror + unit)" where
  "update_sunrgbd_infos np load pkl_path out_dir =
     (let tr1 = [Print (pkl_path @ '' will be modified.'')] @
                (if str_in out_dir pkl_path
                 then [Print (overwrite_warning pkl_path), Sleep 5] else []) @
                [Print (''Reading from input file: '' @ pkl_path @ ''.''), Load pkl_path,
                 Print ''Start updating:'']
      in case sunrgbd_loop np (load pkl_path) of
           Inl e \<Rightarrow> (tr1, Inl e)
         | Inr (ignore_class_name, converted_list) \<Rightarrow>
             (let pkl_name = split_last pkl_path;
                  out_path = osp_join out_dir pkl_name;
                  tr2 = tr1 @ [Print (''Writing to output file: '' @ out_path @ ''.'')]
              in case ignore_class_name of
                   None \<Rightarrow> (tr2, Inl (UnboundLocalError ''ignore_class_name''))
                 | Some ign \<Rightarrow>
                     (tr2 @ [Print_ignore_classes ign,
                             Dump (converted_data_info ''SUNRGBD'' converted_list) out_path],
                      Inr ())))"

section \<open>The driver\<close>

text \<open>
  The command line as given (a flag that is absent is \<open>None\<close>) and the namespace
  \<^verbatim>\<open>parse_args\<close> returns, with the defaults of the three flags.
\<close>

record command_line =
  dataset_flag :: "string option"
  pkl_flag :: "string option"
  out_dir_flag :: "string option"

record args =
  dataset :: string
  pkl :: string
  out_dir :: "string option"

definition parse_args :: "command_line \<Rightarrow> args" where
  "parse_args cl =
     \<lparr>dataset = (case dataset_flag cl of None \<Rightarrow> ''kitti'' | Some d \<Rightarrow> d),
      pkl = (case pkl_flag cl of
               None \<Rightarrow> ''./data/kitti/kitti_infos_train.pkl '' | Some p \<Rightarrow> p),
      out_dir = Some (case out_dir_flag cl of
                        None \<Rightarrow> ''converted_annotations'' | Some d \<Rightarrow> d)\<rparr>"

text \<open>The record store: what \<^verbatim>\<open>mmcv.load\<close> returns for a path, as each adapter reads it.\<close>

record 'a mmcv =
  load_kitti :: "string \<Rightarrow> 'a kitti_info list"
  load_scannet :: "string \<Rightarrow> 'a scannet_info list"
  load_sunrgbd :: "string \<Rightarrow> 'a sunrgbd_info list"

text \<open>
  \<^verbatim>\<open>str.lower\<close> is Python's own and follows the Unicode case tables; it is the
  parameter \<open>str_lower\<close> of the driver, and nothing is assumed about it.
\<close>

definition main ::
  "(string \<Rightarrow> string) \<Rightarrow> 'a numpy \<Rightarrow> 'a mmcv \<Rightarrow> command_line
     \<Rightarrow> 'a event list \<times> (pyerror + unit)" where
  "main str_lower np store cl =
     (let a = parse_args cl in
      case out_dir a of
        None \<Rightarrow> ([], Inl (AttributeError ''root_dir''))
      | Some od \<Rightarrow>
          if str_lower (dataset a) = ''kitti'' then
            update_kitti_infos np (load_kitti store) (pkl a) od
          else if str_lower (dataset a) = ''scannet'' then
            update_scannet_infos (load_scannet store) (pkl a) od
          else if str_lower (dataset a) = ''sunrgbd'' then
            update_sunrgbd_infos np (load_sunrgbd store) (pkl a) od
          else
            ([], Inl (NotImplementedError
                        (''Do not support convert '' @ dataset a @ '' to v2.''))))"

section \<open>An exact numpy for running the model\<close>

text \<open>
  Integer scalars with exact arithmetic: the cast changes nothing and the product
  of matrices is the textbook one, raising when a row of the left factor is not
  as long as the right factor has rows.
\<close>

definition exact_matmul :: "int list list \<Rightarrow> int list list \<Rightarrow> pyerror + int list list" where
  "exact_matmul a b =
     (if list_all (\<lambda>row. length row = length b) a
      then Inr (map (\<lambda>row. map (\<lambda>col. sum_list (map2 (*) row col)) (transpose b)) a)
      else Inl ValueError)"

definition exact_numpy :: "int numpy" where
  "exact_numpy =
     \<lparr>float32 = (\<lambda>x. x), matmul = exact_matmul, from_int = (\<lambda>i. i), to_int = Inr\<rparr>"

text \<open>
  A lower-casing for running the driver: the letters \<open>A\<close> to \<open>Z\<close> of ASCII become
  \<open>a\<close> to \<open>z\<close>, as \<^verbatim>\<open>str.lower\<close> does on ASCII text; every other character stays.
\<close>

definition ascii_lower_char :: "char \<Rightarrow> char" where
  "ascii_lower_char c =
     (if 65 \<le> (of_char c :: nat) \<and> (of_char c :: nat) \<le> 90
      then char_of (of_char c + 32 :: nat) else c)"

definition ascii_lower :: "string \<Rightarrow> string" where
  "ascii_lower s = map ascii_lower_char s"

section \<open>Example records\<close>

text \<open>A small KITTI record over the exact numpy, one instance per given name.\<close>

definition example_kitti_calib :: "int kitti_calib" where
  "example_kitti_calib =
     \<lparr>P0 = [[1, 0], [0, 1]], P1 = [[2, 0], [0, 2]], P2 = [[1, 1], [0, 1]],
      P3 = [[0, 1], [1, 0]], R0_rect = [[1, 2], [3, 4]],
      Tr_velo_to_cam = [[0, 1], [1, 0]], Tr_imu_to_velo = [[5, 6], [7, 8]]\<rparr>"

definition example_kitti_annos :: "string list \<Rightarrow> int kitti_annos" where
  "example_kitti_annos names =
     \<lparr>kitti_annos.name = names,
      bbox = map (\<lambda>_. [0, 0, 1, 1]) names,
      location = map (\<lambda>_. [1, 2, 3]) names,
      dimensions = map (\<lambda>_. [4, 5, 6]) names,
      rotation_y = map (\<lambda>_. 7) names,
      truncated = map (\<lambda>_. 0) names,
      occluded = map (\<lambda>_. 0) names,
      alpha = map (\<lambda>_. 0) names,
      score = map (\<lambda>_. 0) names,
      index = map (\<lambda>_. 0) names,
      group_ids = map (\<lambda>_. 0) names,
      difficulty = map (\<lambda>_. 0) names,
      num_points_in_gt = map (\<lambda>_. 9) names\<rparr>"

definition example_kitti_info :: "string list \<Rightarrow> int kitti_info" where
  "example_kitti_info names =
     \<lparr>plane = None,
      kitti_info.image =
        \<lparr>image_idx = 7, kitti_image.image_path = ''training/image_2/000007.png'',
         kitti_image.image_shape = (370, 1224)\<rparr>,
      kitti_info.calib = example_kitti_calib,
      kitti_info.point_cloud =
        \<lparr>kitti_point_cloud.num_features = 4,
         velodyne_path = ''training/velodyne/000007.bin''\<rparr>,
      kitti_info.annos = example_kitti_annos names\<rparr>"

text \<open>A small ScanNet record with the given \<^verbatim>\<open>gt_num\<close>, one instance per given name.\<close>

definition example_scannet_info :: "int \<Rightarrow> string list \<Rightarrow> int scannet_info" where
  "example_scannet_info n names =
     \<lparr>scannet_info.point_cloud = \<lparr>depth_point_cloud.num_features = 6\<rparr>,
      scannet_info.pts_path = ''points/scene0000_00.bin'',
      pts_semantic_mask_path = ''semantic_mask/scene0000_00.bin'',
      pts_instance_mask_path = ''instance_mask/scene0000_00.bin'',
      scannet_info.annos =
        \<lparr>axis_align_matrix = [[1, 0], [0, 1]],
         gt_num = n,
         scannet_annos.name = names,
         scannet_annos.gt_boxes_upright_depth = map (\<lambda>_. [1, 2, 3, 4, 5, 6]) names\<rparr>\<rparr>"

text \<open>A small SUNRGBD record over the exact numpy, one instance per given name.\<close>

definition example_sunrgbd_info :: "string list \<Rightarrow> int sunrgbd_info" where
  "example_sunrgbd_info names =
     \<lparr>sunrgbd_info.point_cloud = \<lparr>depth_point_cloud.num_features = 6\<rparr>,
      sunrgbd_info.pts_path = ''points/000001.bin'',
      sunrgbd_info.calib =
        \<lparr>Rt = [[1, 2, 3], [4, 5, 6], [7, 8, 9]], K = [[2, 0, 0], [0, 2, 0], [0, 0, 1]]\<rparr>,
      sunrgbd_info.image =
        \<lparr>sunrgbd_image.image_path = ''image/000001.jpg'',
         sunrgbd_image.image_shape = (530, 730)\<rparr>,
      sunrgbd_info.annos =
        \<lparr>sunrgbd_annos.name = names,
         sunrgbd_annos.gt_boxes_upright_depth = map (\<lambda>_. [1, 2, 3, 4, 5, 6, 7]) names\<rparr>\<rparr>"

text \<open>Record stores for the examples: what \<^verbatim>\<open>mmcv.load\<close> returns, whatever the path.\<close>

definition example_kitti_store :: "string \<Rightarrow> int kitti_info list" where
  "example_kitti_store path = [example_kitti_info [''DontCare''], example_kitti_info [''Car'']]"

definition example_scannet_store :: "string \<Rightarrow> int scannet_info list" where
  "example_scannet_store path =
     [example_scannet_info 0 [], example_scannet_info 2 [''chair'', ''lamp'']]"

definition example_sunrgbd_store :: "string \<Rightarrow> int sunrgbd_info list" where
  "example_sunrgbd_store path = [example_sunrgbd_info [''lamp'', ''bed'']]"

definition empty_store :: "string \<Rightarrow> 'r list" where
  "empty_store path = []"

definition example_mmcv :: "int mmcv" where
  "example_mmcv =
     \<lparr>load_kitti = example_kitti_store, load_scannet = example_scannet_store,
      load_sunrgbd = example_sunrgbd_store\<rparr>"

section \<open>Properties in the words of the specification\<close>

text \<open>
  ``Every field other than \<^verbatim>\<open>instances\<close> was removed'': no key of \<open>x\<close> but
  \<^verbatim>\<open>instances\<close> is a key of the pruned \<open>x'\<close>.
\<close>

definition others_removed :: "'a pydict \<Rightarrow> 'a pydict \<Rightarrow> bool" where
  "others_removed x x' =
     list_all (\<lambda>k. k = ''instances'' \<or> k \<notin> set (dict_keys x')) (dict_keys x)"

text \<open>
  ``The label is the positional index of the name in the vocabulary, or exactly
  \<open>-1\<close>, and \<open>-1\<close> only for a name that is not in the vocabulary.''
\<close>

definition is_label_of :: "string list \<Rightarrow> string \<Rightarrow> int \<Rightarrow> bool" where
  "is_label_of classes nm l =
     (if nm \<in> set classes
      then 0 \<le> l \<and> nat l < length classes \<and> classes ! nat l = nm
      else l = - 1)"

text \<open>The value under each of the given keys of an instance is such a label.\<close>

definition has_labels :: "string list \<Rightarrow> string list \<Rightarrow> string \<Rightarrow> 'a pyval \<Rightarrow> bool" where
  "has_labels classes keys nm inst =
     list_all (\<lambda>k. case lookup_path inst [k] of
                     Some (PInt l) \<Rightarrow> is_label_of classes nm l
                   | _ \<Rightarrow> False) keys"

text \<open>
  A well-formed \<^verbatim>\<open>annos\<close> of KITTI: every per-instance array has a row for every
  name, and \<^verbatim>\<open>int\<close> accepts the truncation values. The names themselves are free.
\<close>

definition kitti_annos_ok :: "'a numpy \<Rightarrow> 'a kitti_annos \<Rightarrow> bool" where
  "kitti_annos_ok np anns =
     (let n = length (kitti_annos.name anns) in
      n \<le> length (bbox anns) \<and> n \<le> length (location anns) \<and>
      n \<le> length (dimensions anns) \<and> n \<le> length (rotation_y anns) \<and>
      n \<le> length (truncated anns) \<and> n \<le> length (occluded anns) \<and>
      n \<le> length (alpha anns) \<and> n \<le> length (score anns) \<and>
      n \<le> length (index anns) \<and> n \<le> length (group_ids anns) \<and>
      n \<le> length (difficulty anns) \<and> n \<le> length (num_points_in_gt anns) \<and>
      list_all (\<lambda>t. \<not> isl (to_int np t)) (take n (truncated anns)))"

section \<open>Properties of the pruner\<close>

lemma bind_err_simps [simp]:
  "bind_err (Inl e) f = Inl e" "bind_err (Inr x) f = f x"
  by (simp_all add: bind_err_def)

text \<open>Induction over a dictionary and the dictionaries nested in its values.\<close>

lemma pydict_induct [case_names Nil Cons]:
  assumes "P []"
    and "\<And>k v rest. P rest \<Longrightarrow> (\<And>sub. v = PDict sub \<Longrightarrow> P sub) \<Longrightarrow> P ((k, v) # rest)"
  shows "P (d :: 'a pydict)"
proof (induction d rule: measure_induct_rule[where f = "size_list (size_prod (\<lambda>_. 0) size)"])
  case (less d)
  show ?case
  proof (cases d)
    case Nil
    then show ?thesis using assms(1) by simp
  next
    case (Cons kv rest)
    obtain k v where kv: "kv = (k, v)" by (cases kv)
    have "P rest" using less[of rest] Cons by simp
    moreover have "P sub" if "v = PDict sub" for sub
      using less[of sub] Cons kv that by simp
    ultimately show ?thesis using assms(2) Cons kv by blast
  qed
qed

lemma loop_False:
  "clear_data_info_loop d False = (fst (clear_data_info_loop d True), False)"
  by (induction d) (auto simp: Let_def split: pyval.splits prod.splits if_splits)

text \<open>One step of the loop, with the flag read off the results.\<close>

lemma loop_Cons:
  "clear_data_info_loop ((key, v) # rest) True =
     (if key = ''instances'' then ((key, v) # fst (clear_data_info_loop rest True), False)
      else case v of
          PList xs \<Rightarrow> if xs = [] then clear_data_info_loop rest True
                      else ((key, v) # fst (clear_data_info_loop rest True), False)
        | PNone \<Rightarrow> clear_data_info_loop rest True
        | PDict sub \<Rightarrow>
            if snd (clear_data_info_loop sub True) then clear_data_info_loop rest True
            else ((key, PDict (fst (clear_data_info_loop sub True))) #
                   fst (clear_data_info_loop rest True), False)
        | _ \<Rightarrow> ((key, v) # fst (clear_data_info_loop rest True), False))"
  by (auto simp: loop_False split: pyval.splits prod.splits)

lemma loop_empty:
  "snd (clear_data_info_loop d True) = (fst (clear_data_info_loop d True) = [])"
  by (induction d rule: pydict_induct)
     (auto simp: loop_Cons simp del: clear_data_info_loop.simps(2) split: pyval.splits)

lemma loop_idem:
  "clear_data_info_loop (fst (clear_data_info_loop d True)) True = clear_data_info_loop d True"
proof (induction d rule: pydict_induct)
  case Nil
  then show ?case by simp
next
  case (Cons k v rest)
  then show ?case
    by (cases v)
       (auto simp: loop_Cons loop_empty prod_eq_iff simp del: clear_data_info_loop.simps(2))
qed

lemma loop_keeps_instances:
  "map_of d ''instances'' = Some v \<Longrightarrow>
   map_of (fst (clear_data_info_loop d True)) ''instances'' = Some v"
  by (induction d rule: pydict_induct)
     (auto simp: loop_Cons simp del: clear_data_info_loop.simps(2) split: pyval.splits)

lemma loop_keys_subset:
  "set (dict_keys (fst (clear_data_info_loop d True))) \<subseteq> set (dict_keys d)"
  by (induction d rule: pydict_induct)
     (auto simp: loop_Cons dict_keys_def simp del: clear_data_info_loop.simps(2)
           split: pyval.splits)

lemma loop_map_of_keep:
  assumes "map_of d k = Some v" "v \<noteq> PNone" "v \<noteq> PList []" "\<And>sub. v \<noteq> PDict sub"
  shows "map_of (fst (clear_data_info_loop d True)) k = Some v"
  using assms
  by (induction d rule: pydict_induct)
     (auto simp: loop_Cons simp del: clear_data_info_loop.simps(2)
           split: pyval.splits if_splits)

lemma loop_map_of_dict:
  assumes "map_of d k = Some (PDict sub)" "k \<noteq> ''instances''"
    "fst (clear_data_info_loop sub True) \<noteq> []"
  shows "map_of (fst (clear_data_info_loop d True)) k =
         Some (PDict (fst (clear_data_info_loop sub True)))"
  using assms
  by (induction d rule: pydict_induct)
     (auto simp: loop_Cons loop_empty simp del: clear_data_info_loop.simps(2)
           split: pyval.splits if_splits)

text \<open>
  A value that is neither \<^verbatim>\<open>None\<close>, an empty list nor a dictionary stays where it
  is, under any chain of keys that does not pass through \<^verbatim>\<open>instances\<close>.
\<close>

lemma prune_lookup_path:
  assumes "lookup_path (PDict d) (ks @ [k]) = Some v"
    and "v \<noteq> PNone" "v \<noteq> PList []" "\<And>sub. v \<noteq> PDict sub"
    and "''instances'' \<notin> set ks"
  shows "lookup_path (PDict (fst (clear_data_info_unused_keys d))) (ks @ [k]) = Some v"
  using assms
proof (induction ks arbitrary: d)
  case Nil
  then have "map_of d k = Some v" by (simp split: option.splits)
  from loop_map_of_keep[OF this Nil(2,3,4)] show ?case
    by (simp add: clear_data_info_unused_keys_def)
next
  case (Cons p ps)
  from Cons.prems(1) obtain w where
    w: "map_of d p = Some w" "lookup_path w (ps @ [k]) = Some v"
    by (auto split: option.splits)
  then obtain sub where sub: "w = PDict sub" by (cases w; cases ps) auto
  have ih: "lookup_path (PDict (fst (clear_data_info_unused_keys sub))) (ps @ [k]) = Some v"
    using Cons.IH[of sub] w sub Cons.prems by simp
  then have ne: "fst (clear_data_info_loop sub True) \<noteq> []"
    by (cases ps) (auto simp: clear_data_info_unused_keys_def split: option.splits)
  have "p \<noteq> ''instances''" using Cons.prems(5) by auto
  from loop_map_of_dict[OF w(1)[unfolded sub] this ne] ih show ?case
    by (simp add: clear_data_info_unused_keys_def)
qed

lemma prune_lookup_matrix:
  assumes "lookup_path (PDict d) (ks @ [k]) = Some (tolist2 m)" "m \<noteq> []"
    and "''instances'' \<notin> set ks"
  shows "lookup_path (PDict (fst (clear_data_info_unused_keys d))) (ks @ [k]) =
         Some (tolist2 m)"
  using prune_lookup_path[OF assms(1) _ _ _ assms(3)] assms(2)
  by (simp add: tolist2_def)

text \<open>
  C1, as amended. The pruner never removes the field \<^verbatim>\<open>instances\<close> and leaves its
  value as it is. The emptiness verdict is true exactly when nothing is left of
  the structure: when it has no field \<^verbatim>\<open>instances\<close> and every other field was
  removed. A field \<^verbatim>\<open>instances\<close> that is present, even with an empty list, makes
  the verdict false.
\<close>

theorem prune_instances_and_verdict:
  "(map_of x ''instances'' = Some v \<longrightarrow>
      map_of (fst (clear_data_info_unused_keys x)) ''instances'' = Some v)
   \<and> (snd (clear_data_info_unused_keys x) \<longleftrightarrow> fst (clear_data_info_unused_keys x) = [])
   \<and> (snd (clear_data_info_unused_keys x) \<longleftrightarrow>
        ''instances'' \<notin> set (dict_keys x)
        \<and> others_removed x (fst (clear_data_info_unused_keys x)))"
proof -
  let ?x' = "fst (clear_data_info_loop x True)"
  have a: "?x' = [] \<longleftrightarrow> ''instances'' \<notin> set (dict_keys x) \<and> others_removed x ?x'"
  proof
    assume e: "?x' = []"
    have "''instances'' \<notin> set (dict_keys x)"
    proof
      assume "''instances'' \<in> set (dict_keys x)"
      then obtain v where "map_of x ''instances'' = Some v"
        by (metis dict_keys_def domD dom_map_of_conv_image_fst list.set_map)
      from loop_keeps_instances[OF this] e show False by simp
    qed
    then show "''instances'' \<notin> set (dict_keys x) \<and> others_removed x ?x'"
      using e by (simp add: others_removed_def list_all_iff dict_keys_def)
  next
    assume h: "''instances'' \<notin> set (dict_keys x) \<and> others_removed x ?x'"
    show "?x' = []"
    proof (rule ccontr)
      assume "?x' \<noteq> []"
      then obtain k where k: "k \<in> set (dict_keys ?x')"
        by (cases ?x') (auto simp: dict_keys_def)
      then have kx: "k \<in> set (dict_keys x)" using loop_keys_subset by blast
      with h have "k \<noteq> ''instances''" by auto
      with h kx k show False by (auto simp: others_removed_def list_all_iff)
    qed
  qed
  show ?thesis
    unfolding clear_data_info_unused_keys_def
    using loop_keeps_instances loop_empty[of x] a by blast
qed

theorem prune_instances_and_verdict_witness:
  "map_of [(''token'', PNone), (''instances'', PList [])] ''instances'' =
     Some (PList [] :: int pyval)
   \<and> map_of (fst (clear_data_info_unused_keys
                [(''token'', PNone), (''instances'', PList [] :: int pyval)])) ''instances'' =
     Some (PList [])
   \<and> \<not> snd (clear_data_info_unused_keys
              [(''token'', PNone), (''instances'', PList [] :: int pyval)])"
  using prune_instances_and_verdict
    [of "[(''token'', PNone), (''instances'', PList [] :: int pyval)]" "PList []"]
  by (simp add: dict_keys_def clear_data_info_unused_keys_def)

text \<open>
  C1 as the specification states it fails: in a record with an empty \<^verbatim>\<open>instances\<close>
  list and an unset \<^verbatim>\<open>token\<close>, every field other than \<^verbatim>\<open>instances\<close> is removed,
  and the verdict is false.
\<close>

theorem prune_verdict_counterexample:
  "others_removed [(''token'', PNone), (''instances'', PList [] :: int pyval)]
     (fst (clear_data_info_unused_keys
             [(''token'', PNone), (''instances'', PList [] :: int pyval)]))
   \<and> \<not> snd (clear_data_info_unused_keys
              [(''token'', PNone), (''instances'', PList [] :: int pyval)])"
  by (simp add: others_removed_def clear_data_info_unused_keys_def dict_keys_def)

text \<open>
  C2. Pruning is idempotent: pruning the pruned record gives the same record and
  the same verdict, and so is the pruner of instances.
\<close>

theorem prune_idempotent:
  "clear_data_info_unused_keys (fst (clear_data_info_unused_keys x)) =
     clear_data_info_unused_keys x
   \<and> clear_instance_unused_keys (clear_instance_unused_keys i) =
     clear_instance_unused_keys i"
proof -
  have "clear_instance_unused_keys (clear_instance_unused_keys i) =
        clear_instance_unused_keys i"
    by (induction i) auto
  then show ?thesis
    by (simp add: clear_data_info_unused_keys_def loop_idem)
qed

section \<open>Calibration matrices in the converted records\<close>

lemmas template_defs =
  get_empty_standard_data_info_def get_single_image_sweep_def get_empty_img_info_def
  get_empty_lidar_points_def get_empty_radar_points_def

lemma kitti_temp_lookups:
  fixes np :: "'a numpy"
  assumes "matmul np (astype_float32 np (R0_rect (kitti_info.calib info)))
             (astype_float32 np (Tr_velo_to_cam (kitti_info.calib info))) = Inr L"
    and "matmul np (P0 (kitti_info.calib info)) L = Inr M0"
    and "matmul np (P1 (kitti_info.calib info)) L = Inr M1"
    and "matmul np (P2 (kitti_info.calib info)) L = Inr M2"
    and "matmul np (P3 (kitti_info.calib info)) L = Inr M3"
    and "kitti_instance_list np (kitti_info.annos info) = Inr (ign, insts)"
  shows "\<exists>t. kitti_temp_data_info np info = Inr (ign, t)
     \<and> lookup_path (PDict t) ([''images'', ''CAM2''] @ [''lidar2cam'']) = Some (tolist2 L)
     \<and> lookup_path (PDict t) ([''images'', ''CAM0''] @ [''lidar2img'']) = Some (tolist2 M0)
     \<and> lookup_path (PDict t) ([''images'', ''CAM1''] @ [''lidar2img'']) = Some (tolist2 M1)
     \<and> lookup_path (PDict t) ([''images'', ''CAM2''] @ [''lidar2img'']) = Some (tolist2 M2)
     \<and> lookup_path (PDict t) ([''images'', ''CAM3''] @ [''lidar2img'']) = Some (tolist2 M3)
     \<and> lookup_path (PDict t) ([''images'', ''CAM0''] @ [''cam2img'']) =
         Some (tolist2 (P0 (kitti_info.calib info)))
     \<and> lookup_path (PDict t) ([''images'', ''CAM1''] @ [''cam2img'']) =
         Some (tolist2 (P1 (kitti_info.calib info)))
     \<and> lookup_path (PDict t) ([''images'', ''CAM2''] @ [''cam2img'']) =
         Some (tolist2 (P2 (kitti_info.calib info)))
     \<and> lookup_path (PDict t) ([''images'', ''CAM3''] @ [''cam2img'']) =
         Some (tolist2 (P3 (kitti_info.calib info)))
     \<and> lookup_path (PDict t) ([''images''] @ [''R0_rect'']) =
         Some (tolist2 (astype_float32 np (R0_rect (kitti_info.calib info))))
     \<and> lookup_path (PDict t) ([''lidar_points''] @ [''Tr_velo_to_cam'']) =
         Some (tolist2 (astype_float32 np (Tr_velo_to_cam (kitti_info.calib info))))
     \<and> lookup_path (PDict t) ([''lidar_points''] @ [''Tr_imu_to_velo'']) =
         Some (tolist2 (astype_float32 np (Tr_imu_to_velo (kitti_info.calib info))))
     \<and> map_of t ''instances'' = Some (PList (map PDict insts))"
  using assms
  by (cases "kitti_info.plane info")
     (simp_all add: kitti_temp_data_info_def Let_def template_defs)

text \<open>
  C4. When the products succeed and have at least one row, the converted KITTI
  record holds, under \<^verbatim>\<open>images.CAM2.lidar2cam\<close>, the product of the single-precision
  casts of \<^verbatim>\<open>R0_rect\<close> and \<^verbatim>\<open>Tr_velo_to_cam\<close>, and under \<^verbatim>\<open>images.CAMk.lidar2img\<close>
  the product of \<^verbatim>\<open>Pk\<close> with it, for each of the four cameras.
\<close>

theorem kitti_matrix_composition:
  fixes np :: "'a numpy"
  assumes "matmul np (astype_float32 np (R0_rect (kitti_info.calib info)))
             (astype_float32 np (Tr_velo_to_cam (kitti_info.calib info))) = Inr lidar2cam"
    and "matmul np (P0 (kitti_info.calib info)) lidar2cam = Inr M0"
    and "matmul np (P1 (kitti_info.calib info)) lidar2cam = Inr M1"
    and "matmul np (P2 (kitti_info.calib info)) lidar2cam = Inr M2"
    and "matmul np (P3 (kitti_info.calib info)) lidar2cam = Inr M3"
    and "kitti_instance_list np (kitti_info.annos info) = Inr (ign, insts)"
    and "lidar2cam \<noteq> []" "M0 \<noteq> []" "M1 \<noteq> []" "M2 \<noteq> []" "M3 \<noteq> []"
  shows "\<exists>r. kitti_data_info np info = Inr (ign, r)
     \<and> lookup_path (PDict r) [''images'', ''CAM2'', ''lidar2cam''] = Some (tolist2 lidar2cam)
     \<and> lookup_path (PDict r) [''images'', ''CAM0'', ''lidar2img''] = Some (tolist2 M0)
     \<and> lookup_path (PDict r) [''images'', ''CAM1'', ''lidar2img''] = Some (tolist2 M1)
     \<and> lookup_path (PDict r) [''images'', ''CAM2'', ''lidar2img''] = Some (tolist2 M2)
     \<and> lookup_path (PDict r) [''images'', ''CAM3'', ''lidar2img''] = Some (tolist2 M3)"
proof -
  from kitti_temp_lookups[OF assms(1-6)] obtain t where
    t: "kitti_temp_data_info np info = Inr (ign, t)"
    and l: "lookup_path (PDict t) ([''images'', ''CAM2''] @ [''lidar2cam'']) = Some (tolist2 lidar2cam)"
      "lookup_path (PDict t) ([''images'', ''CAM0''] @ [''lidar2img'']) = Some (tolist2 M0)"
      "lookup_path (PDict t) ([''images'', ''CAM1''] @ [''lidar2img'']) = Some (tolist2 M1)"
      "lookup_path (PDict t) ([''images'', ''CAM2''] @ [''lidar2img'']) = Some (tolist2 M2)"
      "lookup_path (PDict t) ([''images'', ''CAM3''] @ [''lidar2img'']) = Some (tolist2 M3)"
    by blast
  have r: "kitti_data_info np info = Inr (ign, fst (clear_data_info_unused_keys t))"
    by (simp add: kitti_data_info_def t)
  show ?thesis
    using r prune_lookup_matrix[OF l(1) assms(7)] prune_lookup_matrix[OF l(2) assms(8)]
      prune_lookup_matrix[OF l(3) assms(9)] prune_lookup_matrix[OF l(4) assms(10)]
      prune_lookup_matrix[OF l(5) assms(11)]
    by simp
qed

lemmas example_kitti_defs =
  exact_numpy_def exact_matmul_def example_kitti_info_def example_kitti_calib_def
  example_kitti_annos_def astype_float32_def

theorem kitti_matrix_composition_witness:
  "\<exists>r. kitti_data_info exact_numpy (example_kitti_info []) = Inr ({}, r)
     \<and> lookup_path (PDict r) [''images'', ''CAM2'', ''lidar2cam''] = Some (tolist2 [[2, 1], [4, 3]])
     \<and> lookup_path (PDict r) [''images'', ''CAM0'', ''lidar2img''] = Some (tolist2 [[2, 1], [4, 3]])
     \<and> lookup_path (PDict r) [''images'', ''CAM1'', ''lidar2img''] = Some (tolist2 [[4, 2], [8, 6]])
     \<and> lookup_path (PDict r) [''images'', ''CAM2'', ''lidar2img''] = Some (tolist2 [[6, 4], [4, 3]])
     \<and> lookup_path (PDict r) [''images'', ''CAM3'', ''lidar2img''] = Some (tolist2 [[4, 3], [2, 1]])"
proof -
  let ?c = "kitti_info.calib (example_kitti_info [])"
  have h1: "matmul exact_numpy (astype_float32 exact_numpy (R0_rect ?c))
              (astype_float32 exact_numpy (Tr_velo_to_cam ?c)) = Inr [[2, 1], [4, 3]]"
    by (simp add: example_kitti_defs)
  have h2: "matmul exact_numpy (P0 ?c) [[2, 1], [4, 3]] = Inr [[2, 1], [4, 3]]"
    by (simp add: example_kitti_defs)
  have h3: "matmul exact_numpy (P1 ?c) [[2, 1], [4, 3]] = Inr [[4, 2], [8, 6]]"
    by (simp add: example_kitti_defs)
  have h4: "matmul exact_numpy (P2 ?c) [[2, 1], [4, 3]] = Inr [[6, 4], [4, 3]]"
    by (simp add: example_kitti_defs)
  have h5: "matmul exact_numpy (P3 ?c) [[2, 1], [4, 3]] = Inr [[4, 3], [2, 1]]"
    by (simp add: example_kitti_defs)
  have h6: "kitti_instance_list exact_numpy (kitti_info.annos (example_kitti_info [])) =
              Inr ({}, [])"
    by (simp add: kitti_instance_list_def example_kitti_defs)
  show ?thesis
    by (rule kitti_matrix_composition[OF h1 h2 h3 h4 h5 h6]) simp_all
qed

text \<open>
  C10. The converted KITTI record has, beside the camera entries \<^verbatim>\<open>CAM0\<close> to
  \<^verbatim>\<open>CAM3\<close>, the key \<^verbatim>\<open>R0_rect\<close> in \<^verbatim>\<open>images\<close> and the keys \<^verbatim>\<open>Tr_velo_to_cam\<close> and
  \<^verbatim>\<open>Tr_imu_to_velo\<close> in \<^verbatim>\<open>lidar_points\<close>; the templates have none of the three.
\<close>

theorem kitti_extra_calibration_keys:
  fixes np :: "'a numpy"
  assumes "matmul np (astype_float32 np (R0_rect (kitti_info.calib info)))
             (astype_float32 np (Tr_velo_to_cam (kitti_info.calib info))) = Inr lidar2cam"
    and "matmul np (P0 (kitti_info.calib info)) lidar2cam = Inr M0"
    and "matmul np (P1 (kitti_info.calib info)) lidar2cam = Inr M1"
    and "matmul np (P2 (kitti_info.calib info)) lidar2cam = Inr M2"
    and "matmul np (P3 (kitti_info.calib info)) lidar2cam = Inr M3"
    and "kitti_instance_list np (kitti_info.annos info) = Inr (ign, insts)"
    and "R0_rect (kitti_info.calib info) \<noteq> []"
    and "Tr_velo_to_cam (kitti_info.calib info) \<noteq> []"
    and "Tr_imu_to_velo (kitti_info.calib info) \<noteq> []"
    and "P0 (kitti_info.calib info) \<noteq> []" "P1 (kitti_info.calib info) \<noteq> []"
    and "P2 (kitti_info.calib info) \<noteq> []" "P3 (kitti_info.calib info) \<noteq> []"
  shows "\<exists>r. kitti_data_info np info = Inr (ign, r)
     \<and> lookup_path (PDict r) [''images'', ''R0_rect''] =
         Some (tolist2 (astype_float32 np (R0_rect (kitti_info.calib info))))
     \<and> lookup_path (PDict r) [''lidar_points'', ''Tr_velo_to_cam''] =
         Some (tolist2 (astype_float32 np (Tr_velo_to_cam (kitti_info.calib info))))
     \<and> lookup_path (PDict r) [''lidar_points'', ''Tr_imu_to_velo''] =
         Some (tolist2 (astype_float32 np (Tr_imu_to_velo (kitti_info.calib info))))
     \<and> lookup_path (PDict r) [''images'', ''CAM0'', ''cam2img''] =
         Some (tolist2 (P0 (kitti_info.calib info)))
     \<and> lookup_path (PDict r) [''images'', ''CAM1'', ''cam2img''] =
         Some (tolist2 (P1 (kitti_info.calib info)))
     \<and> lookup_path (PDict r) [''images'', ''CAM2'', ''cam2img''] =
         Some (tolist2 (P2 (kitti_info.calib info)))
     \<and> lookup_path (PDict r) [''images'', ''CAM3'', ''cam2img''] =
         Some (tolist2 (P3 (kitti_info.calib info)))
     \<and> lookup_path (PDict (get_empty_standard_data_info :: 'a pydict))
           [''images'', ''R0_rect''] = None
     \<and> map_of (get_empty_img_info :: 'a pydict) ''R0_rect'' = None
     \<and> map_of (get_empty_lidar_points :: 'a pydict) ''Tr_velo_to_cam'' = None
     \<and> map_of (get_empty_lidar_points :: 'a pydict) ''Tr_imu_to_velo'' = None"
proof -
  from kitti_temp_lookups[OF assms(1-6)] obtain t where
    t: "kitti_temp_data_info np info = Inr (ign, t)"
    and l: "lookup_path (PDict t) ([''images''] @ [''R0_rect'']) =
         Some (tolist2 (astype_float32 np (R0_rect (kitti_info.calib info))))"
     "lookup_path (PDict t) ([''lidar_points''] @ [''Tr_velo_to_cam'']) =
         Some (tolist2 (astype_float32 np (Tr_velo_to_cam (kitti_info.calib info))))"
     "lookup_path (PDict t) ([''lidar_points''] @ [''Tr_imu_to_velo'']) =
         Some (tolist2 (astype_float32 np (Tr_imu_to_velo (kitti_info.calib info))))"
     "lookup_path (PDict t) ([''images'', ''CAM0''] @ [''cam2img'']) =
         Some (tolist2 (P0 (kitti_info.calib info)))"
     "lookup_path (PDict t) ([''images'', ''CAM1''] @ [''cam2img'']) =
         Some (tolist2 (P1 (kitti_info.calib info)))"
     "lookup_path (PDict t) ([''images'', ''CAM2''] @ [''cam2img'']) =
         Some (tolist2 (P2 (kitti_info.calib info)))"
     "lookup_path (PDict t) ([''images'', ''CAM3''] @ [''cam2img'']) =
         Some (tolist2 (P3 (kitti_info.calib info)))"
    by blast
  have r: "kitti_data_info np info = Inr (ign, fst (clear_data_info_unused_keys t))"
    by (simp add: kitti_data_info_def t)
  have ne: "astype_float32 np (R0_rect (kitti_info.calib info)) \<noteq> []"
    "astype_float32 np (Tr_velo_to_cam (kitti_info.calib info)) \<noteq> []"
    "astype_float32 np (Tr_imu_to_velo (kitti_info.calib info)) \<noteq> []"
    using assms(7-9) by (simp_all add: astype_float32_def)
  have tmpl: "lookup_path (PDict (get_empty_standard_data_info :: 'a pydict))
           [''images'', ''R0_rect''] = None"
    "map_of (get_empty_img_info :: 'a pydict) ''R0_rect'' = None"
    "map_of (get_empty_lidar_points :: 'a pydict) ''Tr_velo_to_cam'' = None"
    "map_of (get_empty_lidar_points :: 'a pydict) ''Tr_imu_to_velo'' = None"
    by (simp_all add: template_defs)
  show ?thesis
    using r tmpl prune_lookup_matrix[OF l(1) ne(1)] prune_lookup_matrix[OF l(2) ne(2)]
      prune_lookup_matrix[OF l(3) ne(3)] prune_lookup_matrix[OF l(4) assms(10)]
      prune_lookup_matrix[OF l(5) assms(11)] prune_lookup_matrix[OF l(6) assms(12)]
      prune_lookup_matrix[OF l(7) assms(13)]
    by simp
qed

theorem kitti_extra_calibration_keys_witness:
  "\<exists>r. kitti_data_info exact_numpy (example_kitti_info []) = Inr ({}, r)
     \<and> lookup_path (PDict r) [''images'', ''R0_rect''] = Some (tolist2 [[1, 2], [3, 4]])
     \<and> lookup_path (PDict r) [''lidar_points'', ''Tr_velo_to_cam''] =
         Some (tolist2 [[0, 1], [1, 0]])
     \<and> lookup_path (PDict r) [''lidar_points'', ''Tr_imu_to_velo''] =
         Some (tolist2 [[5, 6], [7, 8]])"
proof -
  let ?c = "kitti_info.calib (example_kitti_info [])"
  have h1: "matmul exact_numpy (astype_float32 exact_numpy (R0_rect ?c))
              (astype_float32 exact_numpy (Tr_velo_to_cam ?c)) = Inr [[2, 1], [4, 3]]"
    by (simp add: example_kitti_defs)
  have h2: "matmul exact_numpy (P0 ?c) [[2, 1], [4, 3]] = Inr [[2, 1], [4, 3]]"
    by (simp add: example_kitti_defs)
  have h3: "matmul exact_numpy (P1 ?c) [[2, 1], [4, 3]] = Inr [[4, 2], [8, 6]]"
    by (simp add: example_kitti_defs)
  have h4: "matmul exact_numpy (P2 ?c) [[2, 1], [4, 3]] = Inr [[6, 4], [4, 3]]"
    by (simp add: example_kitti_defs)
  have h5: "matmul exact_numpy (P3 ?c) [[2, 1], [4, 3]] = Inr [[4, 3], [2, 1]]"
    by (simp add: example_kitti_defs)
  have h6: "kitti_instance_list exact_numpy (kitti_info.annos (example_kitti_info [])) =
              Inr ({}, [])"
    by (simp add: kitti_instance_list_def example_kitti_defs)
  have ne: "R0_rect ?c \<noteq> []" "Tr_velo_to_cam ?c \<noteq> []" "Tr_imu_to_velo ?c \<noteq> []"
    "P0 ?c \<noteq> []" "P1 ?c \<noteq> []" "P2 ?c \<noteq> []" "P3 ?c \<noteq> []"
    by (simp_all add: example_kitti_defs)
  show ?thesis
    using kitti_extra_calibration_keys[OF h1 h2 h3 h4 h5 h6 ne]
    by (auto simp: example_kitti_defs)
qed

lemma sunrgbd_temp_lookups:
  fixes np :: "'a numpy"
  assumes "matmul np (coordinate_flip np) (transpose (Rt (sunrgbd_info.calib info))) = Inr rt_mat"
    and "matmul np (K (sunrgbd_info.calib info)) rt_mat = Inr depth2img"
    and "sunrgbd_instance_list (sunrgbd_info.annos info) = Inr (ign, insts)"
  shows "\<exists>t. sunrgbd_temp_data_info np info = Inr (ign, t)
     \<and> lookup_path (PDict t) ([''images'', ''CAM0''] @ [''depth2img'']) = Some (tolist2 depth2img)
     \<and> map_of t ''instances'' = Some (PList (map PDict insts))"
  using assms
  by (simp add: sunrgbd_temp_data_info_def Let_def template_defs)

text \<open>
  C5. The converted SUNRGBD record holds, under \<^verbatim>\<open>images.CAM0.depth2img\<close>, the
  product of \<^verbatim>\<open>K\<close> with the product of the fixed flip matrix and the transpose of
  \<^verbatim>\<open>Rt\<close>.
\<close>

theorem sunrgbd_depth2img:
  fixes np :: "'a numpy"
  assumes "matmul np (map (map (from_int np)) [[1, 0, 0], [0, 0, - 1], [0, 1, 0]])
             (transpose (Rt (sunrgbd_info.calib info))) = Inr rt_mat"
    and "matmul np (K (sunrgbd_info.calib info)) rt_mat = Inr depth2img"
    and "sunrgbd_instance_list (sunrgbd_info.annos info) = Inr (ign, insts)"
    and "depth2img \<noteq> []"
  shows "\<exists>r. sunrgbd_data_info np info = Inr (ign, r)
     \<and> lookup_path (PDict r) [''images'', ''CAM0'', ''depth2img''] = Some (tolist2 depth2img)"
proof -
  have f: "matmul np (coordinate_flip np) (transpose (Rt (sunrgbd_info.calib info))) = Inr rt_mat"
    using assms(1) by (simp add: coordinate_flip_def)
  from sunrgbd_temp_lookups[OF f assms(2,3)] obtain t where
    t: "sunrgbd_temp_data_info np info = Inr (ign, t)"
    and l: "lookup_path (PDict t) ([''images'', ''CAM0''] @ [''depth2img'']) = Some (tolist2 depth2img)"
    by blast
  have r: "sunrgbd_data_info np info = Inr (ign, fst (clear_data_info_unused_keys t))"
    by (simp add: sunrgbd_data_info_def t)
  show ?thesis
    using r prune_lookup_matrix[OF l assms(4)] by simp
qed

theorem sunrgbd_depth2img_witness:
  "\<exists>r. sunrgbd_data_info exact_numpy (example_sunrgbd_info []) = Inr ({}, r)
     \<and> lookup_path (PDict r) [''images'', ''CAM0'', ''depth2img''] =
         Some (tolist2 [[2, 8, 14], [- 6, - 12, - 18], [2, 5, 8]])"
proof -
  let ?c = "sunrgbd_info.calib (example_sunrgbd_info [])"
  have h1: "matmul exact_numpy
              (map (map (from_int exact_numpy)) [[1, 0, 0], [0, 0, - 1], [0, 1, 0]])
              (transpose (Rt ?c)) = Inr [[1, 4, 7], [- 3, - 6, - 9], [2, 5, 8]]"
    by (simp add: exact_numpy_def exact_matmul_def example_sunrgbd_info_def)
  have h2: "matmul exact_numpy (K ?c) [[1, 4, 7], [- 3, - 6, - 9], [2, 5, 8]] =
              Inr [[2, 8, 14], [- 6, - 12, - 18], [2, 5, 8]]"
    by (simp add: exact_numpy_def exact_matmul_def example_sunrgbd_info_def)
  have h3: "sunrgbd_instance_list (sunrgbd_info.annos (example_sunrgbd_info [])) = Inr ({}, [])"
    by (simp add: sunrgbd_instance_list_def example_sunrgbd_info_def)
  show ?thesis
    by (rule sunrgbd_depth2img[OF h1 h2 h3]) simp
qed

section \<open>Labels of the instances\<close>

lemma py_index_ok: "i < length xs \<Longrightarrow> py_index xs i = Inr (xs ! i)"
  by (simp add: py_index_def)

lemma first_position:
  "x \<in> set xs \<Longrightarrow>
   length (takeWhile (\<lambda>y. y \<noteq> x) xs) < length xs \<and>
   xs ! length (takeWhile (\<lambda>y. y \<noteq> x) xs) = x"
  by (induction xs) auto

lemma label_step:
  "\<exists>s' l. (if nm \<in> set classes
            then bind_err (tuple_index classes nm) (\<lambda>i. Inr (s, int i))
            else Inr (insert nm s, - 1)) = Inr (s', l) \<and> is_label_of classes nm l"
  using first_position[of nm classes]
  by (auto simp: tuple_index_def is_label_of_def)

lemma for_each_collect_ok:
  assumes "\<And>x s. x \<in> set xs \<Longrightarrow> \<exists>s' y. f x s = Inr (s', y) \<and> Q x y"
  shows "\<exists>s1 ys.
           for_each (\<lambda>x (s, acc). bind_err (f x s) (\<lambda>(s', y). Inr (g s', acc @ [y])))
             xs (s0, acc0) = Inr (s1, acc0 @ ys) \<and> list_all2 Q xs ys"
  using assms
proof (induction xs arbitrary: s0 acc0)
  case Nil
  then show ?case by simp
next
  case (Cons x xs)
  from Cons.prems[of x s0] obtain s' y where xy: "f x s0 = Inr (s', y)" "Q x y" by auto
  from Cons.IH[of "g s'" "acc0 @ [y]"] Cons.prems obtain s1 ys where
    "for_each (\<lambda>x (s, acc). bind_err (f x s) (\<lambda>(s', y). Inr (g s', acc @ [y])))
       xs (g s', acc0 @ [y]) = Inr (s1, (acc0 @ [y]) @ ys)" "list_all2 Q xs ys"
    by auto
  with xy show ?case
    by (intro exI[of _ s1] exI[of _ "y # ys"]) simp
qed

lemma for_each_collect_inv:
  assumes "for_each (\<lambda>x (s, acc). bind_err (f x s) (\<lambda>(s', y). Inr (g s', acc @ [y])))
             xs (s0, acc0) = Inr (s1, acc1)"
  shows "\<exists>ys. acc1 = acc0 @ ys \<and> list_all2 (\<lambda>x y. \<exists>s s'. f x s = Inr (s', y)) xs ys"
  using assms
proof (induction xs arbitrary: s0 acc0)
  case Nil
  then show ?case by simp
next
  case (Cons x xs)
  from Cons.prems obtain s' y where
    xy: "f x s0 = Inr (s', y)"
    and rest: "for_each (\<lambda>x (s, acc). bind_err (f x s) (\<lambda>(s', y). Inr (g s', acc @ [y])))
                 xs (g s', acc0 @ [y]) = Inr (s1, acc1)"
    by (cases "f x s0") (auto split: sum.splits)
  from Cons.IH[OF rest] obtain ys where
    "acc1 = (acc0 @ [y]) @ ys" "list_all2 (\<lambda>x y. \<exists>s s'. f x s = Inr (s', y)) xs ys"
    by auto
  with xy show ?case
    by (intro exI[of _ "y # ys"]) auto
qed

lemma kitti_instance_ok:
  fixes np :: "'a numpy"
  assumes "kitti_annos_ok np anns" "i < length (kitti_annos.name anns)"
  shows "\<exists>s' inst. kitti_instance np anns i s = Inr (s', inst) \<and>
           has_labels KITTI_CLASSES [''bbox_label'', ''bbox_label_3d'']
             (kitti_annos.name anns ! i) (PDict inst)"
proof -
  have len: "i < length (bbox anns)" "i < length (location anns)"
    "i < length (dimensions anns)" "i < length (rotation_y anns)"
    "i < length (truncated anns)" "i < length (occluded anns)"
    "i < length (alpha anns)" "i < length (score anns)"
    "i < length (index anns)" "i < length (group_ids anns)"
    "i < length (difficulty anns)" "i < length (num_points_in_gt anns)"
    using assms by (simp_all add: kitti_annos_ok_def Let_def)
  have "truncated anns ! i \<in> set (take (length (kitti_annos.name anns)) (truncated anns))"
    using assms(2) len(5) by (metis in_set_conv_nth length_take min_less_iff_conj nth_take)
  then have "\<not> isl (to_int np (truncated anns ! i))"
    using assms(1) by (simp add: kitti_annos_ok_def Let_def list_all_iff)
  then obtain ti where ti: "to_int np (truncated anns ! i) = Inr ti"
    by (cases "to_int np (truncated anns ! i)") auto
  from label_step[of "kitti_annos.name anns ! i" KITTI_CLASSES s]
  obtain s' l where b: "(if kitti_annos.name anns ! i \<in> set KITTI_CLASSES
               then bind_err (tuple_index KITTI_CLASSES (kitti_annos.name anns ! i))
                      (\<lambda>i. Inr (s, int i))
               else Inr (insert (kitti_annos.name anns ! i) s, - 1)) = Inr (s', l)"
    and l: "is_label_of KITTI_CLASSES (kitti_annos.name anns ! i) l"
    by blast
  show ?thesis
    unfolding kitti_instance_def
    using l
    by (simp add: py_index_ok len assms(2) ti b has_labels_def get_empty_instance_def
          setitems_def tolist1_def)
qed

lemma depth_instance_ok:
  assumes "i < length names" "length names \<le> length boxes"
  shows "\<exists>s' inst.
     bind_err (py_index boxes i) (\<lambda>box.
     bind_err (py_index names i) (\<lambda>nm.
     bind_err (if nm \<in> set classes
               then bind_err (tuple_index classes nm) (\<lambda>i. Inr (s, int i))
               else Inr (insert nm s, - 1)) (\<lambda>(ignore_class_name', label).
     Inr (ignore_class_name',
          clear_instance_unused_keys (setitems get_empty_instance
            [(''bbox_3d'', tolist1 box),
             (''bbox_label_3d'', PInt label)]))))) = Inr (s', inst :: 'a pydict) \<and>
     has_labels classes [''bbox_label_3d''] (names ! i) (PDict inst)"
proof -
  from label_step[of "names ! i" classes s]
  obtain s' l where b: "(if names ! i \<in> set classes
               then bind_err (tuple_index classes (names ! i)) (\<lambda>i. Inr (s, int i))
               else Inr (insert (names ! i) s, - 1)) = Inr (s', l)"
    and l: "is_label_of classes (names ! i) l"
    by blast
  have "i < length boxes" using assms by simp
  then show ?thesis
    using l assms(1)
    by (simp add: py_index_ok b has_labels_def get_empty_instance_def
          setitems_def tolist1_def)
qed

lemma instance_list_ok:
  assumes "\<And>i s. i < n \<Longrightarrow> \<exists>s' inst. f i s = Inr (s', inst) \<and> has_labels classes keys (names ! i) (PDict inst)"
    and "n = length names"
  shows "\<exists>ign insts.
     for_each (\<lambda>i (s, acc). bind_err (f i s) (\<lambda>(s', y). Inr (s', acc @ [y])))
       [0..<n] ({}, []) = Inr (ign, insts) \<and>
     list_all2 (has_labels classes keys) names (map PDict insts)"
proof -
  from for_each_collect_ok[where f = f and xs = "[0..<n]" and g = "\<lambda>s. s"
      and Q = "\<lambda>i inst. has_labels classes keys (names ! i) (PDict inst)" and ?s0.0 = "{}" and ?acc0.0 = "[]"]
    assms(1)
  obtain s1 ys where
    r: "for_each (\<lambda>i (s, acc). bind_err (f i s) (\<lambda>(s', y). Inr (s', acc @ [y])))
       [0..<n] ({}, []) = Inr (s1, ys)"
    and q: "list_all2 (\<lambda>i inst. has_labels classes keys (names ! i) (PDict inst)) [0..<n] ys"
    by auto
  from q have "length ys = n" by (auto dest: list_all2_lengthD)
  moreover from q have "\<forall>i<n. has_labels classes keys (names ! i) (PDict (ys ! i))"
    by (auto simp: list_all2_conv_all_nth)
  ultimately have "list_all2 (has_labels classes keys) names (map PDict ys)"
    using assms(2) by (simp add: list_all2_conv_all_nth)
  with r show ?thesis by blast
qed

lemma kitti_instance_list_ok:
  fixes np :: "'a numpy"
  assumes "kitti_annos_ok np anns"
  shows "\<exists>ign insts. kitti_instance_list np anns = Inr (ign, insts) \<and>
     list_all2 (has_labels KITTI_CLASSES [''bbox_label'', ''bbox_label_3d''])
       (kitti_annos.name anns) (map PDict insts)"
  unfolding kitti_instance_list_def
  by (rule instance_list_ok[OF kitti_instance_ok[OF assms]]) simp_all

lemma scannet_instance_list_ok:
  assumes "length (scannet_annos.name anns) \<le> length (scannet_annos.gt_boxes_upright_depth anns)"
  shows "\<exists>ign insts. scannet_instance_list anns = Inr (ign, insts :: 'a pydict list) \<and>
     list_all2 (has_labels SCANNET_CLASSES [''bbox_label_3d''])
       (scannet_annos.name anns) (map PDict insts)"
  unfolding scannet_instance_list_def
  by (rule instance_list_ok) (simp_all add: scannet_instance_def depth_instance_ok[OF _ assms])

lemma sunrgbd_instance_list_ok:
  assumes "length (sunrgbd_annos.name anns) \<le> length (sunrgbd_annos.gt_boxes_upright_depth anns)"
  shows "\<exists>ign insts. sunrgbd_instance_list anns = Inr (ign, insts :: 'a pydict list) \<and>
     list_all2 (has_labels SUNRGBD_CLASSES [''bbox_label_3d''])
       (sunrgbd_annos.name anns) (map PDict insts)"
  unfolding sunrgbd_instance_list_def
  by (rule instance_list_ok) (simp_all add: sunrgbd_instance_def depth_instance_ok[OF _ assms])

lemma scannet_temp_no_gt:
  assumes "gt_num (scannet_info.annos info) = 0"
  shows "\<exists>t. scannet_temp_data_info info ign0 = Inr (ign0, t)
      \<and> map_of t ''instances'' = Some (PList [])"
  using assms by (simp add: scannet_temp_data_info_def Let_def template_defs)

lemma scannet_temp_instances:
  assumes "gt_num (scannet_info.annos info) \<noteq> 0"
    and "scannet_instance_list (scannet_info.annos info) = Inr (ign, insts)"
  shows "\<exists>t. scannet_temp_data_info info ign0 = Inr (Some ign, t)
      \<and> map_of t ''instances'' = Some (PList (map PDict insts))"
  using assms by (simp add: scannet_temp_data_info_def Let_def template_defs)

lemma label_minus_one: "is_label_of classes nm l \<Longrightarrow> (l = - 1) = (nm \<notin> set classes)"
  by (auto simp: is_label_of_def)

lemma kitti_labels:
  fixes np :: "'a numpy"
  assumes "matmul np (astype_float32 np (R0_rect (kitti_info.calib info)))
             (astype_float32 np (Tr_velo_to_cam (kitti_info.calib info))) = Inr L"
    and "matmul np (P0 (kitti_info.calib info)) L = Inr M0"
    and "matmul np (P1 (kitti_info.calib info)) L = Inr M1"
    and "matmul np (P2 (kitti_info.calib info)) L = Inr M2"
    and "matmul np (P3 (kitti_info.calib info)) L = Inr M3"
    and "kitti_annos_ok np (kitti_info.annos info)"
  shows "\<exists>ign r insts. kitti_data_info np info = Inr (ign, r)
     \<and> map_of r ''instances'' = Some (PList insts)
     \<and> list_all2 (has_labels KITTI_CLASSES [''bbox_label'', ''bbox_label_3d''])
          (kitti_annos.name (kitti_info.annos info)) insts"
proof -
  from kitti_instance_list_ok[OF assms(6)] obtain ign insts where
    i: "kitti_instance_list np (kitti_info.annos info) = Inr (ign, insts)"
    and l: "list_all2 (has_labels KITTI_CLASSES [''bbox_label'', ''bbox_label_3d''])
       (kitti_annos.name (kitti_info.annos info)) (map PDict insts)"
    by blast
  from kitti_temp_lookups[OF assms(1-5) i] obtain t where
    t: "kitti_temp_data_info np info = Inr (ign, t)"
    and m: "map_of t ''instances'' = Some (PList (map PDict insts))"
    by blast
  have "kitti_data_info np info = Inr (ign, fst (clear_data_info_unused_keys t))"
    by (simp add: kitti_data_info_def t)
  moreover have "map_of (fst (clear_data_info_unused_keys t)) ''instances'' =
      Some (PList (map PDict insts))"
    using loop_keeps_instances[OF m] by (simp add: clear_data_info_unused_keys_def)
  ultimately show ?thesis using l by blast
qed

lemma scannet_labels:
  assumes "gt_num (scannet_info.annos info) \<noteq> 0"
    and "length (scannet_annos.name (scannet_info.annos info))
           \<le> length (scannet_annos.gt_boxes_upright_depth (scannet_info.annos info))"
  shows "\<exists>ign r insts. scannet_data_info info ign0 = Inr (Some ign, r)
     \<and> map_of r ''instances'' = Some (PList insts)
     \<and> list_all2 (has_labels SCANNET_CLASSES [''bbox_label_3d''])
          (scannet_annos.name (scannet_info.annos info)) insts"
proof -
  from scannet_instance_list_ok[OF assms(2)] obtain ign insts where
    i: "scannet_instance_list (scannet_info.annos info) = Inr (ign, insts)"
    and l: "list_all2 (has_labels SCANNET_CLASSES [''bbox_label_3d''])
       (scannet_annos.name (scannet_info.annos info)) (map PDict insts)"
    by blast
  from scannet_temp_instances[OF assms(1) i] obtain t where
    t: "scannet_temp_data_info info ign0 = Inr (Some ign, t)"
    and m: "map_of t ''instances'' = Some (PList (map PDict insts))"
    by blast
  have "scannet_data_info info ign0 = Inr (Some ign, fst (clear_data_info_unused_keys t))"
    by (simp add: scannet_data_info_def t)
  moreover have "map_of (fst (clear_data_info_unused_keys t)) ''instances'' =
      Some (PList (map PDict insts))"
    using loop_keeps_instances[OF m] by (simp add: clear_data_info_unused_keys_def)
  ultimately show ?thesis using l by blast
qed

lemma sunrgbd_labels:
  fixes np :: "'a numpy"
  assumes "matmul np (coordinate_flip np) (transpose (Rt (sunrgbd_info.calib info))) = Inr rt_mat"
    and "matmul np (K (sunrgbd_info.calib info)) rt_mat = Inr depth2img"
    and "length (sunrgbd_annos.name (sunrgbd_info.annos info))
           \<le> length (sunrgbd_annos.gt_boxes_upright_depth (sunrgbd_info.annos info))"
  shows "\<exists>ign r insts. sunrgbd_data_info np info = Inr (ign, r)
     \<and> map_of r ''instances'' = Some (PList insts)
     \<and> list_all2 (has_labels SUNRGBD_CLASSES [''bbox_label_3d''])
          (sunrgbd_annos.name (sunrgbd_info.annos info)) insts"
proof -
  from sunrgbd_instance_list_ok[OF assms(3)] obtain ign insts where
    i: "sunrgbd_instance_list (sunrgbd_info.annos info) = Inr (ign, insts :: 'a pydict list)"
    and l: "list_all2 (has_labels SUNRGBD_CLASSES [''bbox_label_3d''])
       (sunrgbd_annos.name (sunrgbd_info.annos info)) (map PDict insts)"
    by blast
  from sunrgbd_temp_lookups[OF assms(1,2) i] obtain t where
    t: "sunrgbd_temp_data_info np info = Inr (ign, t)"
    and m: "map_of t ''instances'' = Some (PList (map PDict insts))"
    by blast
  have "sunrgbd_data_info np info = Inr (ign, fst (clear_data_info_unused_keys t))"
    by (simp add: sunrgbd_data_info_def t)
  moreover have "map_of (fst (clear_data_info_unused_keys t)) ''instances'' =
      Some (PList (map PDict insts))"
    using loop_keeps_instances[OF m] by (simp add: clear_data_info_unused_keys_def)
  ultimately show ?thesis using l by blast
qed

text \<open>
  C3. Each adapter, on a record whose arrays are well formed, returns a record
  whose \<^verbatim>\<open>instances\<close> has one instance per raw category name, whatever the names
  are, and the label of each instance is the position of its name in the
  vocabulary of the dataset, or \<open>-1\<close> when the name is not in the vocabulary; the
  label is \<open>-1\<close> exactly for the names that are not in the vocabulary.
\<close>

theorem label_remap:
  fixes np :: "'a numpy"
  shows
  "(matmul np (astype_float32 np (R0_rect (kitti_info.calib ki)))
      (astype_float32 np (Tr_velo_to_cam (kitti_info.calib ki))) = Inr L
    \<and> matmul np (P0 (kitti_info.calib ki)) L = Inr M0
    \<and> matmul np (P1 (kitti_info.calib ki)) L = Inr M1
    \<and> matmul np (P2 (kitti_info.calib ki)) L = Inr M2
    \<and> matmul np (P3 (kitti_info.calib ki)) L = Inr M3
    \<and> kitti_annos_ok np (kitti_info.annos ki)
    \<longrightarrow> (\<exists>ign r insts. kitti_data_info np ki = Inr (ign, r)
          \<and> map_of r ''instances'' = Some (PList insts)
          \<and> list_all2 (has_labels KITTI_CLASSES [''bbox_label'', ''bbox_label_3d''])
               (kitti_annos.name (kitti_info.annos ki)) insts))
   \<and> (gt_num (scannet_info.annos si) \<noteq> 0
      \<and> length (scannet_annos.name (scannet_info.annos si))
           \<le> length (scannet_annos.gt_boxes_upright_depth (scannet_info.annos si))
    \<longrightarrow> (\<exists>ign r insts. scannet_data_info si ign0 = Inr (Some ign, r :: 'a pydict)
          \<and> map_of r ''instances'' = Some (PList insts)
          \<and> list_all2 (has_labels SCANNET_CLASSES [''bbox_label_3d''])
               (scannet_annos.name (scannet_info.annos si)) insts))
   \<and> (matmul np (coordinate_flip np) (transpose (Rt (sunrgbd_info.calib ui))) = Inr rt_mat
      \<and> matmul np (K (sunrgbd_info.calib ui)) rt_mat = Inr depth2img
      \<and> length (sunrgbd_annos.name (sunrgbd_info.annos ui))
           \<le> length (sunrgbd_annos.gt_boxes_upright_depth (sunrgbd_info.annos ui))
    \<longrightarrow> (\<exists>ign r insts. sunrgbd_data_info np ui = Inr (ign, r)
          \<and> map_of r ''instances'' = Some (PList insts)
          \<and> list_all2 (has_labels SUNRGBD_CLASSES [''bbox_label_3d''])
               (sunrgbd_annos.name (sunrgbd_info.annos ui)) insts))
   \<and> (is_label_of classes nm l \<longrightarrow> (l = - 1) = (nm \<notin> set classes))"
  using kitti_labels[of np ki L M0 M1 M2 M3] scannet_labels[of si ign0]
    sunrgbd_labels[of np ui rt_mat depth2img] label_minus_one[of classes nm l]
  by blast

theorem label_remap_witness:
  "(\<exists>ign r insts.
      kitti_data_info exact_numpy (example_kitti_info [''Car'', ''DontCare'']) = Inr (ign, r)
      \<and> map_of r ''instances'' = Some (PList insts)
      \<and> list_all2 (has_labels KITTI_CLASSES [''bbox_label'', ''bbox_label_3d''])
           [''Car'', ''DontCare''] insts)
   \<and> (\<exists>ign r insts.
      scannet_data_info (example_scannet_info 2 [''chair'', ''lamp'']) None =
        Inr (Some ign, r :: int pydict)
      \<and> map_of r ''instances'' = Some (PList insts)
      \<and> list_all2 (has_labels SCANNET_CLASSES [''bbox_label_3d'']) [''chair'', ''lamp''] insts)
   \<and> (\<exists>ign r insts.
      sunrgbd_data_info exact_numpy (example_sunrgbd_info [''lamp'', ''bed'']) = Inr (ign, r)
      \<and> map_of r ''instances'' = Some (PList insts)
      \<and> list_all2 (has_labels SUNRGBD_CLASSES [''bbox_label_3d'']) [''lamp'', ''bed''] insts)
   \<and> is_label_of KITTI_CLASSES ''DontCare'' (- 1) \<and> ''DontCare'' \<notin> set KITTI_CLASSES"
proof -
  let ?ki = "example_kitti_info [''Car'', ''DontCare'']"
  let ?c = "kitti_info.calib ?ki"
  let ?si = "example_scannet_info 2 [''chair'', ''lamp'']"
  let ?ui = "example_sunrgbd_info [''lamp'', ''bed'']"
  have k: "matmul exact_numpy (astype_float32 exact_numpy (R0_rect ?c))
              (astype_float32 exact_numpy (Tr_velo_to_cam ?c)) = Inr [[2, 1], [4, 3]]"
    "matmul exact_numpy (P0 ?c) [[2, 1], [4, 3]] = Inr [[2, 1], [4, 3]]"
    "matmul exact_numpy (P1 ?c) [[2, 1], [4, 3]] = Inr [[4, 2], [8, 6]]"
    "matmul exact_numpy (P2 ?c) [[2, 1], [4, 3]] = Inr [[6, 4], [4, 3]]"
    "matmul exact_numpy (P3 ?c) [[2, 1], [4, 3]] = Inr [[4, 3], [2, 1]]"
    "kitti_annos_ok exact_numpy (kitti_info.annos ?ki)"
    by (simp_all add: example_kitti_defs kitti_annos_ok_def)
  have s: "gt_num (scannet_info.annos ?si) \<noteq> 0"
    "length (scannet_annos.name (scannet_info.annos ?si))
       \<le> length (scannet_annos.gt_boxes_upright_depth (scannet_info.annos ?si))"
    by (simp_all add: example_scannet_info_def)
  have u: "matmul exact_numpy (coordinate_flip exact_numpy)
             (transpose (Rt (sunrgbd_info.calib ?ui))) = Inr [[1, 4, 7], [- 3, - 6, - 9], [2, 5, 8]]"
    "matmul exact_numpy (K (sunrgbd_info.calib ?ui)) [[1, 4, 7], [- 3, - 6, - 9], [2, 5, 8]] =
       Inr [[2, 8, 14], [- 6, - 12, - 18], [2, 5, 8]]"
    "length (sunrgbd_annos.name (sunrgbd_info.annos ?ui))
       \<le> length (sunrgbd_annos.gt_boxes_upright_depth (sunrgbd_info.annos ?ui))"
    by (simp_all add: exact_numpy_def exact_matmul_def example_sunrgbd_info_def
          coordinate_flip_def)
  have n: "kitti_annos.name (kitti_info.annos ?ki) = [''Car'', ''DontCare'']"
    "scannet_annos.name (scannet_info.annos ?si) = [''chair'', ''lamp'']"
    "sunrgbd_annos.name (sunrgbd_info.annos ?ui) = [''lamp'', ''bed'']"
    by (simp_all add: example_kitti_defs example_scannet_info_def example_sunrgbd_info_def)
  have d: "is_label_of KITTI_CLASSES ''DontCare'' (- 1)"
    by (simp add: is_label_of_def KITTI_CLASSES_def)
  from label_remap[where np = exact_numpy and ki = ?ki and si = ?si and ui = ?ui
      and L = "[[2, 1], [4, 3]]" and ?M0.0 = "[[2, 1], [4, 3]]" and ?M1.0 = "[[4, 2], [8, 6]]"
      and ?M2.0 = "[[6, 4], [4, 3]]" and ?M3.0 = "[[4, 3], [2, 1]]" and ?ign0.0 = None
      and rt_mat = "[[1, 4, 7], [- 3, - 6, - 9], [2, 5, 8]]"
      and depth2img = "[[2, 8, 14], [- 6, - 12, - 18], [2, 5, 8]]"
      and classes = KITTI_CLASSES and nm = "''DontCare''" and l = "- 1"]
    k s u d
  show ?thesis unfolding n by auto
qed

section \<open>Records without annotations\<close>

lemma scannet_record_no_gt:
  assumes "gt_num (scannet_info.annos info) = 0"
  shows "\<exists>r. scannet_data_info info ign0 = Inr (ign0, r)
      \<and> map_of r ''instances'' = Some (PList [])"
proof -
  from scannet_temp_no_gt[OF assms, of ign0] obtain t where
    t: "scannet_temp_data_info info ign0 = Inr (ign0, t)"
    and m: "map_of t ''instances'' = Some (PList [])"
    by blast
  have "scannet_data_info info ign0 = Inr (ign0, fst (clear_data_info_unused_keys t))"
    by (simp add: scannet_data_info_def t)
  moreover have "map_of (fst (clear_data_info_unused_keys t)) ''instances'' = Some (PList [])"
    using loop_keeps_instances[OF m] by (simp add: clear_data_info_unused_keys_def)
  ultimately show ?thesis by blast
qed

lemma scannet_loop_no_gt:
  assumes "scannet_loop data_list = Inr (ign, converted_list)"
  shows "length converted_list = length data_list \<and>
     (\<forall>i<length data_list. gt_num (scannet_info.annos (data_list ! i)) = 0 \<longrightarrow>
        map_of (converted_list ! i) ''instances'' = Some (PList []))"
proof -
  from for_each_collect_inv[where f = scannet_data_info and g = "\<lambda>s. s",
      OF assms[unfolded scannet_loop_def]]
  have q: "list_all2 (\<lambda>x y. \<exists>s s'. scannet_data_info x s = Inr (s', y)) data_list converted_list"
    by simp
  then have len: "length converted_list = length data_list"
    by (auto dest: list_all2_lengthD)
  have "map_of (converted_list ! i) ''instances'' = Some (PList [])"
    if "i < length data_list" "gt_num (scannet_info.annos (data_list ! i)) = 0" for i
  proof -
    from q that(1) obtain s s' where
      "scannet_data_info (data_list ! i) s = Inr (s', converted_list ! i)"
      by (auto simp: list_all2_conv_all_nth)
    with scannet_record_no_gt[OF that(2), of s] show ?thesis by auto
  qed
  with len show ?thesis by blast
qed

lemma scannet_run_dump:
  assumes "update_scannet_infos load pkl_path outdir = (tr, Inr ())"
  shows "\<exists>ign converted_list. scannet_loop (load pkl_path) = Inr (Some ign, converted_list) \<and>
     last tr = Dump (converted_data_info ''SCANNET'' converted_list)
                 (osp_join outdir (split_last pkl_path))"
  using assms
  by (auto simp: update_scannet_infos_def Let_def split: sum.splits option.splits prod.splits)

text \<open>
  C7. A ScanNet record with \<^verbatim>\<open>gt_num == 0\<close> is converted to a record whose
  \<^verbatim>\<open>instances\<close> is the empty list; the loop over the records appends one converted
  record per source record, so the record is not dropped; and the list the loop
  built is the \<^verbatim>\<open>data_list\<close> a completed run writes.
\<close>

theorem scannet_no_gt_instances:
  "(gt_num (scannet_info.annos info) = 0 \<longrightarrow>
      (\<exists>r. scannet_data_info info ign0 = Inr (ign0, r)
          \<and> map_of r ''instances'' = Some (PList [])))
   \<and> (scannet_loop data_list = Inr (ign, converted_list) \<longrightarrow>
        length converted_list = length data_list \<and>
        (\<forall>i<length data_list. gt_num (scannet_info.annos (data_list ! i)) = 0 \<longrightarrow>
           map_of (converted_list ! i) ''instances'' = Some (PList [])))
   \<and> (update_scannet_infos load pkl_path outdir = (tr, Inr ()) \<longrightarrow>
        (\<exists>ign' converted_list'.
           scannet_loop (load pkl_path) = Inr (Some ign', converted_list') \<and>
           last tr = Dump (converted_data_info ''SCANNET'' converted_list')
                       (osp_join outdir (split_last pkl_path))))"
  using scannet_record_no_gt[of info ign0] scannet_loop_no_gt[of data_list ign converted_list]
    scannet_run_dump[of load pkl_path outdir tr]
  by blast

theorem scannet_no_gt_instances_witness:
  "(\<exists>r. scannet_data_info (example_scannet_info 0 []) None = Inr (None, r :: int pydict)
        \<and> map_of r ''instances'' = Some (PList []))
   \<and> (\<exists>ign converted_list.
         scannet_loop (example_scannet_store ''a.pkl'') = Inr (ign, converted_list) \<and>
         length converted_list = 2 \<and>
         map_of (converted_list ! 0) ''instances'' = Some (PList []))
   \<and> (\<exists>tr ign converted_list.
         update_scannet_infos example_scannet_store ''data/scannet/a.pkl'' ''out'' =
           (tr, Inr ()) \<and>
         scannet_loop (example_scannet_store ''data/scannet/a.pkl'') =
           Inr (Some ign, converted_list) \<and>
         last tr = Dump (converted_data_info ''SCANNET'' converted_list) ''out/a.pkl'')"
proof -
  have g: "gt_num (scannet_info.annos (example_scannet_info 0 [] :: int scannet_info)) = 0"
    by (simp add: example_scannet_info_def)
  have "\<not> isl (scannet_loop (example_scannet_store ''a.pkl''))"
    by code_simp
  then obtain ign cl where
    l: "scannet_loop (example_scannet_store ''a.pkl'') = Inr (ign, cl)"
    by (cases "scannet_loop (example_scannet_store ''a.pkl'')") auto
  have "snd (update_scannet_infos example_scannet_store ''data/scannet/a.pkl'' ''out'') = Inr ()"
    by code_simp
  then obtain tr where
    u: "update_scannet_infos example_scannet_store ''data/scannet/a.pkl'' ''out'' = (tr, Inr ())"
    by (cases "update_scannet_infos example_scannet_store ''data/scannet/a.pkl'' ''out''") auto
  have p: "osp_join ''out'' (split_last ''data/scannet/a.pkl'') = ''out/a.pkl''"
    by code_simp
  have d: "length (example_scannet_store ''a.pkl'') = 2"
    "gt_num (scannet_info.annos (example_scannet_store ''a.pkl'' ! 0)) = 0"
    by (simp_all add: example_scannet_store_def example_scannet_info_def)
  from scannet_no_gt_instances[of "example_scannet_info 0 []" None
      "example_scannet_store ''a.pkl''" ign cl example_scannet_store
      "''data/scannet/a.pkl''" "''out''" tr] g l u d
  show ?thesis unfolding p by auto
qed

section \<open>The report of the ignored categories\<close>

text \<open>
  C6, the code at a failing input. The first of two KITTI records has the
  unrecognised name \<^verbatim>\<open>DontCare\<close>, the second only \<^verbatim>\<open>Car\<close>: the run completes and
  reports the empty set, because each record starts the set again. On an empty
  collection the variable is never bound and the report raises.
\<close>

theorem kitti_ignore_report_last_record_only:
  "example_kitti_store ''data/kitti/a.pkl'' =
     [example_kitti_info [''DontCare''], example_kitti_info [''Car'']]
   \<and> ''DontCare'' \<notin> set KITTI_CLASSES
   \<and> snd (update_kitti_infos exact_numpy example_kitti_store ''data/kitti/a.pkl'' ''out'') =
       Inr ()
   \<and> Print_ignore_classes {} \<in>
       set (fst (update_kitti_infos exact_numpy example_kitti_store ''data/kitti/a.pkl'' ''out''))
   \<and> snd (update_kitti_infos exact_numpy empty_store ''data/kitti/a.pkl'' ''out'') =
       Inl (UnboundLocalError ''ignore_class_name'')"
  by code_simp

section \<open>The overwrite warning and the dispatch\<close>

lemma warning_is_no_other_line:
  "overwrite_warning p \<noteq> p @ '' will be modified.''"
  "overwrite_warning p \<noteq> CHR ''R'' # xs"
  "overwrite_warning p \<noteq> CHR ''S'' # xs"
  "overwrite_warning p \<noteq> CHR ''W'' # CHR ''r'' # xs"
proof -
  have "length (overwrite_warning p) \<noteq> length (p @ '' will be modified.'')"
    by (simp add: overwrite_warning_def)
  then show "overwrite_warning p \<noteq> p @ '' will be modified.''" by metis
qed (simp_all add: overwrite_warning_def)

lemma kitti_overwrite:
  "(Sleep 5 \<in> set (fst (update_kitti_infos np load p od))) = str_in od p
   \<and> (Print (overwrite_warning p) \<in> set (fst (update_kitti_infos np load p od))) = str_in od p
   \<and> Load p \<in> set (fst (update_kitti_infos np load p od))
   \<and> snd (update_kitti_infos np load p od) =
       (case kitti_loop np (load p) of
          Inl e \<Rightarrow> Inl e
        | Inr (None, _) \<Rightarrow> Inl (UnboundLocalError ''ignore_class_name'')
        | Inr (Some _, _) \<Rightarrow> Inr ())
   \<and> (kitti_loop np (load p) = Inr (Some ign, cl) \<longrightarrow>
        snd (update_kitti_infos np load p od) = Inr () \<and>
        last (fst (update_kitti_infos np load p od)) =
          Dump (converted_data_info ''KITTI'' cl) (osp_join od (split_last p)))"
  by (auto simp: update_kitti_infos_def Let_def warning_is_no_other_line
           split: sum.splits option.splits prod.splits)

lemma scannet_overwrite:
  "(Sleep 5 \<in> set (fst (update_scannet_infos load p od))) = str_in od p
   \<and> (Print (overwrite_warning p) \<in> set (fst (update_scannet_infos load p od))) = str_in od p
   \<and> Load p \<in> set (fst (update_scannet_infos load p od))
   \<and> snd (update_scannet_infos load p od) =
       (case scannet_loop (load p) of
          Inl e \<Rightarrow> Inl e
        | Inr (None, _) \<Rightarrow> Inl (UnboundLocalError ''ignore_class_name'')
        | Inr (Some _, _) \<Rightarrow> Inr ())
   \<and> (scannet_loop (load p) = Inr (Some ign, cl) \<longrightarrow>
        snd (update_scannet_infos load p od) = Inr () \<and>
        last (fst (update_scannet_infos load p od)) =
          Dump (converted_data_info ''SCANNET'' cl) (osp_join od (split_last p)))"
  by (auto simp: update_scannet_infos_def Let_def warning_is_no_other_line
           split: sum.splits option.splits prod.splits)

lemma sunrgbd_overwrite:
  "(Sleep 5 \<in> set (fst (update_sunrgbd_infos np load p od))) = str_in od p
   \<and> (Print (overwrite_warning p) \<in> set (fst (update_sunrgbd_infos np load p od))) = str_in od p
   \<and> Load p \<in> set (fst (update_sunrgbd_infos np load p od))
   \<and> snd (update_sunrgbd_infos np load p od) =
       (case sunrgbd_loop np (load p) of
          Inl e \<Rightarrow> Inl e
        | Inr (None, _) \<Rightarrow> Inl (UnboundLocalError ''ignore_class_name'')
        | Inr (Some _, _) \<Rightarrow> Inr ())
   \<and> (sunrgbd_loop np (load p) = Inr (Some ign, cl) \<longrightarrow>
        snd (update_sunrgbd_infos np load p od) = Inr () \<and>
        last (fst (update_sunrgbd_infos np load p od)) =
          Dump (converted_data_info ''SUNRGBD'' cl) (osp_join od (split_last p)))"
  by (auto simp: update_sunrgbd_infos_def Let_def warning_is_no_other_line
           split: sum.splits option.splits prod.splits)

text \<open>
  C8, as amended. Each adapter prints the warning and pauses exactly when the
  output directory occurs in the input path as a substring. The warning neither
  blocks nor aborts: in either case the run goes on to read the input, how it
  ends is decided by the loop over the records and the final report alone, and
  whenever the loop completes with \<^verbatim>\<open>ignore_class_name\<close> bound the run succeeds and
  its last action is the write of the converted collection.
\<close>

theorem overwrite_warning_iff_out_dir_in_pkl_path:
  "((Sleep 5 \<in> set (fst (update_kitti_infos np kload p od))) = str_in od p
    \<and> (Print (overwrite_warning p) \<in> set (fst (update_kitti_infos np kload p od))) = str_in od p
    \<and> Load p \<in> set (fst (update_kitti_infos np kload p od))
    \<and> snd (update_kitti_infos np kload p od) =
        (case kitti_loop np (kload p) of
           Inl e \<Rightarrow> Inl e
         | Inr (None, _) \<Rightarrow> Inl (UnboundLocalError ''ignore_class_name'')
         | Inr (Some _, _) \<Rightarrow> Inr ())
    \<and> (kitti_loop np (kload p) = Inr (Some kign, kcl) \<longrightarrow>
         snd (update_kitti_infos np kload p od) = Inr () \<and>
         last (fst (update_kitti_infos np kload p od)) =
           Dump (converted_data_info ''KITTI'' kcl) (osp_join od (split_last p))))
   \<and> ((Sleep 5 \<in> set (fst (update_scannet_infos sload p od))) = str_in od p
    \<and> (Print (overwrite_warning p) \<in> set (fst (update_scannet_infos sload p od))) = str_in od p
    \<and> Load p \<in> set (fst (update_scannet_infos sload p od))
    \<and> snd (update_scannet_infos sload p od) =
        (case scannet_loop (sload p) of
           Inl e \<Rightarrow> Inl e
         | Inr (None, _) \<Rightarrow> Inl (UnboundLocalError ''ignore_class_name'')
         | Inr (Some _, _) \<Rightarrow> Inr ())
    \<and> (scannet_loop (sload p) = Inr (Some sign, scl) \<longrightarrow>
         snd (update_scannet_infos sload p od) = Inr () \<and>
         last (fst (update_scannet_infos sload p od)) =
           Dump (converted_data_info ''SCANNET'' scl :: 'a pyval) (osp_join od (split_last p))))
   \<and> ((Sleep 5 \<in> set (fst (update_sunrgbd_infos np uload p od))) = str_in od p
    \<and> (Print (overwrite_warning p) \<in> set (fst (update_sunrgbd_infos np uload p od))) = str_in od p
    \<and> Load p \<in> set (fst (update_sunrgbd_infos np uload p od))
    \<and> snd (update_sunrgbd_infos np uload p od) =
        (case sunrgbd_loop np (uload p) of
           Inl e \<Rightarrow> Inl e
         | Inr (None, _) \<Rightarrow> Inl (UnboundLocalError ''ignore_class_name'')
         | Inr (Some _, _) \<Rightarrow> Inr ())
    \<and> (sunrgbd_loop np (uload p) = Inr (Some uign, ucl) \<longrightarrow>
         snd (update_sunrgbd_infos np uload p od) = Inr () \<and>
         last (fst (update_sunrgbd_infos np uload p od)) =
           Dump (converted_data_info ''SUNRGBD'' ucl) (osp_join od (split_last p))))"
  using kitti_overwrite[of np kload p od kign kcl] scannet_overwrite[of sload p od sign scl]
    sunrgbd_overwrite[of np uload p od uign ucl]
  by blast

theorem overwrite_warning_iff_out_dir_in_pkl_path_witness:
  "str_in ''data'' ''data/a.pkl''
   \<and> Sleep 5 \<in> set (fst (update_kitti_infos exact_numpy example_kitti_store ''data/a.pkl'' ''data''))
   \<and> snd (update_kitti_infos exact_numpy example_kitti_store ''data/a.pkl'' ''data'') = Inr ()
   \<and> Sleep 5 \<in> set (fst (update_scannet_infos example_scannet_store ''data/a.pkl'' ''data''))
   \<and> snd (update_scannet_infos example_scannet_store ''data/a.pkl'' ''data'') = Inr ()
   \<and> Sleep 5 \<in> set (fst (update_sunrgbd_infos exact_numpy example_sunrgbd_store ''data/a.pkl'' ''data''))
   \<and> snd (update_sunrgbd_infos exact_numpy example_sunrgbd_store ''data/a.pkl'' ''data'') = Inr ()"
proof -
  have s: "str_in ''data'' ''data/a.pkl''" by code_simp
  have "case kitti_loop exact_numpy (example_kitti_store ''data/a.pkl'') of
          Inr (Some _, _) \<Rightarrow> True | _ \<Rightarrow> False"
    by code_simp
  then obtain kign kcl where
    k: "kitti_loop exact_numpy (example_kitti_store ''data/a.pkl'') = Inr (Some kign, kcl)"
    by (auto split: sum.splits option.splits prod.splits)
  have "case scannet_loop (example_scannet_store ''data/a.pkl'') of
          Inr (Some _, _) \<Rightarrow> True | _ \<Rightarrow> False"
    by code_simp
  then obtain sign scl where
    c: "scannet_loop (example_scannet_store ''data/a.pkl'') = Inr (Some sign, scl)"
    by (auto split: sum.splits option.splits prod.splits)
  have "case sunrgbd_loop exact_numpy (example_sunrgbd_store ''data/a.pkl'') of
          Inr (Some _, _) \<Rightarrow> True | _ \<Rightarrow> False"
    by code_simp
  then obtain uign ucl where
    u: "sunrgbd_loop exact_numpy (example_sunrgbd_store ''data/a.pkl'') = Inr (Some uign, ucl)"
    by (auto split: sum.splits option.splits prod.splits)
  from overwrite_warning_iff_out_dir_in_pkl_path[of exact_numpy example_kitti_store
      "''data/a.pkl''" "''data''" kign kcl example_scannet_store sign scl
      example_sunrgbd_store uign ucl] s k c u
  show ?thesis by blast
qed

text \<open>
  C8 as the specification states it fails: here the output directory, and the
  output path too, contains the input path, and the run completes with no warning
  and no pause.
\<close>

theorem overwrite_warning_counterexample:
  "str_in ''b.pkl'' ''x/b.pkl''
   \<and> str_in ''b.pkl'' (osp_join ''x/b.pkl'' (split_last ''b.pkl''))
   \<and> Sleep 5 \<notin> set (fst (update_kitti_infos exact_numpy example_kitti_store ''b.pkl'' ''x/b.pkl''))
   \<and> Print (overwrite_warning ''b.pkl'') \<notin>
       set (fst (update_kitti_infos exact_numpy example_kitti_store ''b.pkl'' ''x/b.pkl''))
   \<and> snd (update_kitti_infos exact_numpy example_kitti_store ''b.pkl'' ''x/b.pkl'') = Inr ()"
  by code_simp

lemma adapters_trace_nonempty:
  "fst (update_kitti_infos np kload p od) \<noteq> []"
  "fst (update_scannet_infos sload p od) \<noteq> []"
  "fst (update_sunrgbd_infos np uload p od) \<noteq> []"
  by (auto simp: update_kitti_infos_def update_scannet_infos_def update_sunrgbd_infos_def
        Let_def split: sum.splits option.splits prod.splits)

text \<open>
  C9. The driver lower-cases the dataset name with \<^verbatim>\<open>str.lower\<close> and compares the
  result with the three identifiers, so the upper and lower case of the name do
  not matter; it runs the adapter of that name, and for any other name it raises
  \<^verbatim>\<open>NotImplementedError\<close> with nothing done before: no print, no read, no write.
\<close>

theorem main_dispatch:
  "(str_lower (dataset (parse_args cl)) = ''kitti'' \<longrightarrow>
      main str_lower np st cl =
        update_kitti_infos np (load_kitti st) (pkl (parse_args cl))
          (case out_dir_flag cl of None \<Rightarrow> ''converted_annotations'' | Some d \<Rightarrow> d))
   \<and> (str_lower (dataset (parse_args cl)) = ''scannet'' \<longrightarrow>
      main str_lower np st cl =
        update_scannet_infos (load_scannet st) (pkl (parse_args cl))
          (case out_dir_flag cl of None \<Rightarrow> ''converted_annotations'' | Some d \<Rightarrow> d))
   \<and> (str_lower (dataset (parse_args cl)) = ''sunrgbd'' \<longrightarrow>
      main str_lower np st cl =
        update_sunrgbd_infos np (load_sunrgbd st) (pkl (parse_args cl))
          (case out_dir_flag cl of None \<Rightarrow> ''converted_annotations'' | Some d \<Rightarrow> d))
   \<and> (str_lower (dataset (parse_args cl)) \<notin> {''kitti'', ''scannet'', ''sunrgbd''} \<longrightarrow>
      main str_lower np st cl =
        ([], Inl (NotImplementedError
                    (''Do not support convert '' @ dataset (parse_args cl) @ '' to v2.''))))
   \<and> (fst (main str_lower np st cl) = []) =
       (str_lower (dataset (parse_args cl)) \<notin> {''kitti'', ''scannet'', ''sunrgbd''})"
proof -
  have o: "out_dir (parse_args cl) =
      Some (case out_dir_flag cl of None \<Rightarrow> ''converted_annotations'' | Some d \<Rightarrow> d)"
    by (simp add: parse_args_def)
  show ?thesis
    unfolding main_def Let_def o
    by (auto simp: adapters_trace_nonempty)
qed

theorem main_dispatch_witness:
  "ascii_lower ''KITTI'' = ''kitti'' \<and> ascii_lower ''ScanNet'' = ''scannet''
   \<and> ascii_lower ''sunRGBD'' = ''sunrgbd''
   \<and> main ascii_lower exact_numpy example_mmcv
        \<lparr>dataset_flag = Some ''KITTI'', pkl_flag = Some ''a.pkl'', out_dir_flag = None\<rparr> =
      update_kitti_infos exact_numpy example_kitti_store ''a.pkl'' ''converted_annotations''
   \<and> main ascii_lower exact_numpy example_mmcv
        \<lparr>dataset_flag = Some ''ScanNet'', pkl_flag = Some ''a.pkl'', out_dir_flag = Some ''o''\<rparr> =
      update_scannet_infos example_scannet_store ''a.pkl'' ''o''
   \<and> main ascii_lower exact_numpy example_mmcv
        \<lparr>dataset_flag = Some ''sunRGBD'', pkl_flag = Some ''a.pkl'', out_dir_flag = Some ''o''\<rparr> =
      update_sunrgbd_infos exact_numpy example_sunrgbd_store ''a.pkl'' ''o''
   \<and> main ascii_lower exact_numpy example_mmcv
        \<lparr>dataset_flag = Some ''nuscenes'', pkl_flag = Some ''a.pkl'', out_dir_flag = Some ''o''\<rparr> =
      ([], Inl (NotImplementedError ''Do not support convert nuscenes to v2.''))"
proof -
  have l: "ascii_lower ''KITTI'' = ''kitti''" "ascii_lower ''ScanNet'' = ''scannet''"
    "ascii_lower ''sunRGBD'' = ''sunrgbd''" "ascii_lower ''nuscenes'' = ''nuscenes''"
    by code_simp+
  show ?thesis
    using l
      main_dispatch[of ascii_lower "\<lparr>dataset_flag = Some ''KITTI'', pkl_flag = Some ''a.pkl'',
        out_dir_flag = None\<rparr>" exact_numpy example_mmcv]
      main_dispatch[of ascii_lower "\<lparr>dataset_flag = Some ''ScanNet'', pkl_flag = Some ''a.pkl'',
        out_dir_flag = Some ''o''\<rparr>" exact_numpy example_mmcv]
      main_dispatch[of ascii_lower "\<lparr>dataset_flag = Some ''sunRGBD'', pkl_flag = Some ''a.pkl'',
        out_dir_flag = Some ''o''\<rparr>" exact_numpy example_mmcv]
      main_dispatch[of ascii_lower "\<lparr>dataset_flag = Some ''nuscenes'', pkl_flag = Some ''a.pkl'',
        out_dir_flag = Some ''o''\<rparr>" exact_numpy example_mmcv]
    by (simp add: parse_args_def example_mmcv_def)
qed

end
